theory Spec2Isabelle
  imports Complex_Main "HOL-Library.Char_ord" "HOL-Library.List_Lexorder" "HOL-Library.Log_Nat"
begin

section \<open>JavaScript numbers\<close>

text \<open>
  The aggregation code lives in the component \<^verbatim>\<open>StatisticsScreen\<close>: \<^verbatim>\<open>calculateStats\<close>,
  \<^verbatim>\<open>getChartData\<close>, \<^verbatim>\<open>getWeekComparison\<close> and \<^verbatim>\<open>getMarkedDates\<close>. Its arithmetic is that
  of JavaScript numbers, IEEE 754 binary64.

  A number is a finite double, given by its exact value, an infinity, or NaN. The two
  zeros are one value here: the code never divides by a measurement and never reads the
  sign of a zero, and every operation it uses (\<^verbatim>\<open>+\<close>, \<^verbatim>\<open>-\<close>, division by a positive
  count, \<^verbatim>\<open><\<close>, \<^verbatim>\<open>>\<close>, \<^verbatim>\<open>Math.min\<close>, \<^verbatim>\<open>Math.max\<close>, \<^verbatim>\<open>toFixed\<close>, \<^verbatim>\<open>parseFloat\<close>,
  \<^verbatim>\<open>||\<close>) gives equal results on \<open>+0\<close> and \<open>-0\<close>.
\<close>

datatype number = Fin rat | PosInf | NegInf | NaN

definition pow2 :: "int \<Rightarrow> rat" where
  "pow2 e = (if 0 \<le> e then 2 ^ nat e else 1 / 2 ^ nat (- e))"

text \<open>For \<open>x > 0\<close>, the exponent \<open>e\<close> with \<open>2^e \<le> x < 2^(e+1)\<close>.\<close>

definition ilog2 :: "rat \<Rightarrow> int" where
  "ilog2 x =
     (let k = bitlen (fst (quotient_of x)) - bitlen (snd (quotient_of x))
      in if pow2 k \<le> x then k else k - 1)"

text \<open>The nearest integer, the even one of the two on a tie.\<close>

definition roundHalfEven :: "rat \<Rightarrow> int" where
  "roundHalfEven y =
     (let f = \<lfloor>y\<rfloor>; r = y - of_int f
      in if r < 1 / 2 then f else if 1 / 2 < r then f + 1 else if even f then f else f + 1)"

text \<open>
  The double nearest to a real value (round to nearest, ties to even): the result of every
  arithmetic operation and of reading a decimal literal. The significand has 53 bits; below
  \<open>2^-1022\<close> the doubles are the multiples of \<open>2^-1074\<close>; a value that rounds to
  \<open>2^1024\<close> or more is an infinity.
\<close>

definition fl :: "rat \<Rightarrow> number" where
  "fl x =
     (if x = 0 then Fin 0
      else (let q = pow2 (max (ilog2 \<bar>x\<bar>) (- 1022) - 52);
                v = of_int (roundHalfEven (\<bar>x\<bar> / q)) * q
            in if pow2 1024 \<le> v then (if 0 < x then PosInf else NegInf)
               else Fin (if 0 < x then v else - v)))"

text \<open>A finite value is a double when rounding leaves it as it is.\<close>

definition is_double :: "number \<Rightarrow> bool" where
  "is_double a = (case a of Fin x \<Rightarrow> fl x = Fin x | _ \<Rightarrow> True)"

text \<open>\<^verbatim>\<open>a + b\<close>, \<^verbatim>\<open>-a\<close>, \<^verbatim>\<open>a - b\<close>, \<^verbatim>\<open>a < b\<close> and \<^verbatim>\<open>a <= b\<close> on numbers. A comparison with
  NaN is false.\<close>

definition num_add :: "number \<Rightarrow> number \<Rightarrow> number" where
  "num_add a b =
     (case a of
        NaN \<Rightarrow> NaN
      | PosInf \<Rightarrow> (case b of NaN \<Rightarrow> NaN | NegInf \<Rightarrow> NaN | _ \<Rightarrow> PosInf)
      | NegInf \<Rightarrow> (case b of NaN \<Rightarrow> NaN | PosInf \<Rightarrow> NaN | _ \<Rightarrow> NegInf)
      | Fin x \<Rightarrow> (case b of Fin y \<Rightarrow> fl (x + y) | _ \<Rightarrow> b))"

definition num_neg :: "number \<Rightarrow> number" where
  "num_neg a = (case a of Fin x \<Rightarrow> Fin (- x) | PosInf \<Rightarrow> NegInf | NegInf \<Rightarrow> PosInf | NaN \<Rightarrow> NaN)"

definition num_less :: "number \<Rightarrow> number \<Rightarrow> bool" where
  "num_less a b =
     (case a of
        NaN \<Rightarrow> False
      | PosInf \<Rightarrow> False
      | NegInf \<Rightarrow> (case b of Fin _ \<Rightarrow> True | PosInf \<Rightarrow> True | _ \<Rightarrow> False)
      | Fin x \<Rightarrow> (case b of Fin y \<Rightarrow> x < y | PosInf \<Rightarrow> True | _ \<Rightarrow> False))"

instantiation number :: "{zero, plus, uminus, minus, ord}"
begin

definition zero_number :: number where
  "zero_number = Fin 0"

definition plus_number :: "number \<Rightarrow> number \<Rightarrow> number" where
  "plus_number a b = num_add a b"

definition uminus_number :: "number \<Rightarrow> number" where
  "uminus_number a = num_neg a"

definition minus_number :: "number \<Rightarrow> number \<Rightarrow> number" where
  "minus_number a b = num_add a (num_neg b)"

definition less_number :: "number \<Rightarrow> number \<Rightarrow> bool" where
  "less_number a b = num_less a b"

definition less_eq_number :: "number \<Rightarrow> number \<Rightarrow> bool" where
  "less_eq_number a b = (num_less a b \<or> (a \<noteq> NaN \<and> a = b))"

instance ..

end

text \<open>\<^verbatim>\<open>a / n\<close> for an array length or a count \<open>n\<close> (an exact double, \<open>+0\<close> when it is
  zero).\<close>

definition divide_by :: "number \<Rightarrow> nat \<Rightarrow> number" where
  "divide_by a n =
     (case a of
        Fin x \<Rightarrow>
          (if n = 0 then (if x = 0 then NaN else if 0 < x then PosInf else NegInf)
           else fl (x / of_nat n))
      | _ \<Rightarrow> a)"

text \<open>\<^verbatim>\<open>Math.min\<close> and \<^verbatim>\<open>Math.max\<close> of two arguments: NaN when either is NaN.\<close>

definition Math_min :: "number \<Rightarrow> number \<Rightarrow> number" where
  "Math_min a b = (if a = NaN \<or> b = NaN then NaN else if b < a then b else a)"

definition Math_max :: "number \<Rightarrow> number \<Rightarrow> number" where
  "Math_max a b = (if a = NaN \<or> b = NaN then NaN else if a < b then b else a)"

text \<open>
  \<^verbatim>\<open>parseFloat(x.toFixed(1))\<close>. For a finite \<open>x\<close> below \<open>10^21\<close> in absolute value,
  \<^verbatim>\<open>toFixed(1)\<close> works on the absolute value, takes the integer \<open>n\<close> with \<open>n / 10\<close>
  nearest to it (exactly; the larger one on a tie), prints \<open>n / 10\<close> and puts the sign
  back; \<^verbatim>\<open>parseFloat\<close> reads that decimal as the nearest double. From \<open>10^21\<close> on, and
  for an infinity or NaN, \<^verbatim>\<open>toFixed\<close> prints the number as \<^verbatim>\<open>String\<close> does and
  \<^verbatim>\<open>parseFloat\<close> reads the same number back.
\<close>

definition tenths :: "rat \<Rightarrow> int" where
  "tenths x = \<lfloor>x * 10 + 1 / 2\<rfloor>"

definition toFixed1 :: "number \<Rightarrow> number" where
  "toFixed1 a =
     (case a of
        Fin x \<Rightarrow>
          (if 10 ^ 21 \<le> \<bar>x\<bar> then Fin x
           else if x < 0 then - fl (of_int (tenths (- x)) / 10)
           else fl (of_int (tenths x) / 10))
      | _ \<Rightarrow> a)"

text \<open>\<^verbatim>\<open>x || null\<close>: 0 and NaN are falsy.\<close>

definition or_null :: "number \<Rightarrow> number option" where
  "or_null a = (if a = 0 \<or> a = NaN then None else Some a)"

section \<open>Health logs and summaries\<close>

text \<open>
  The component receives \<^verbatim>\<open>any[]\<close> from the API and reads three properties of each element:
  \<^verbatim>\<open>metric_type\<close> (compared with \<^verbatim>\<open>===\<close> against the metric names), \<^verbatim>\<open>value1\<close> (a
  number) and \<^verbatim>\<open>logged_at\<close>.

  The response is JSON, in which \<^verbatim>\<open>value1\<close> is a decimal; parsing makes it the nearest
  double, or an infinity when it is out of range, and never NaN. \<open>value1_json\<close> is the
  decimal and \<open>value1 r\<close> the number the code reads. A double is its own decimal, so
  every number but NaN can be the value of a measurement.

  The only uses of \<^verbatim>\<open>logged_at\<close> are the truthiness test
  \<^verbatim>\<open>!r.logged_at\<close> and \<^verbatim>\<open>parseISO(r.logged_at)\<close>, so the property is represented by
  what these two see: a falsy value (\<open>Missing\<close>), a text that \<^verbatim>\<open>parseISO\<close> cannot read
  (\<open>Unparsable\<close>), or a text that \<^verbatim>\<open>parseISO\<close> reads as an instant (\<open>ISO t\<close>, the
  time value of the date in milliseconds).
\<close>

datatype MetricType = weight | heartRate | steps | sleep | water

definition METRIC_TYPES :: "MetricType list" where
  "METRIC_TYPES = [weight, heartRate, steps, sleep, water]"

fun metric_name :: "MetricType \<Rightarrow> string" where
  "metric_name weight = ''weight''"
| "metric_name heartRate = ''heartRate''"
| "metric_name steps = ''steps''"
| "metric_name sleep = ''sleep''"
| "metric_name water = ''water''"

datatype timestamp = Missing | Unparsable | ISO int

record healthLog =
  metric_type :: string
  value1_json :: rat
  logged_at :: timestamp

definition value1 :: "healthLog \<Rightarrow> number" where
  "value1 r = fl (value1_json r)"

datatype Trend = up | down | stable | none

text \<open>
  One entry of the \<^verbatim>\<open>stats\<close> state. \<open>None\<close> is \<^verbatim>\<open>null\<close>. The fields \<^verbatim>\<open>min\<close> and
  \<^verbatim>\<open>max\<close> of the source are \<open>min_stat\<close> and \<open>max_stat\<close> here.
\<close>

record summary =
  current :: "number option"
  avg :: "number option"
  min_stat :: "number option"
  max_stat :: "number option"
  trend :: Trend
  change :: number

section \<open>calculateStats\<close>

text \<open>
  The \<^verbatim>\<open>switch (metric)\<close> of \<^verbatim>\<open>calculateStats\<close>. Its \<^verbatim>\<open>default\<close> branch (threshold 0)
  is not reachable: \<^verbatim>\<open>metric\<close> ranges over \<^verbatim>\<open>METRIC_TYPES\<close>. The thresholds are exact
  doubles.
\<close>

fun threshold :: "MetricType \<Rightarrow> number" where
  "threshold weight = Fin (1 / 2)"
| "threshold heartRate = Fin 5"
| "threshold steps = Fin 500"
| "threshold sleep = Fin (1 / 2)"
| "threshold water = Fin 1"

text \<open>
  The body of \<^verbatim>\<open>if (metricRecords.length > 0)\<close>, for \<^verbatim>\<open>metricRecords = r0 # rest\<close>.
  \<^verbatim>\<open>values.reduce((a, b) => a + b, 0)\<close> adds from the left, starting at 0.
  \<^verbatim>\<open>trend\<close> is decided on the difference \<^verbatim>\<open>last - first\<close> itself; the stored
  \<^verbatim>\<open>change\<close> is that difference after \<^verbatim>\<open>toFixed(1)\<close>.
\<close>

definition metricSummary :: "MetricType \<Rightarrow> healthLog \<Rightarrow> healthLog list \<Rightarrow> summary" where
  "metricSummary metric r0 rest =
     (let metricRecords = r0 # rest;
          vals = map value1 metricRecords;
          cur = or_null (value1 (last metricRecords));
          av = divide_by (foldl (\<lambda>a b. a + b) 0 vals) (length vals);
          mn = fold (\<lambda>v m. Math_min m v) (map value1 rest) (value1 r0);
          mx = fold (\<lambda>v m. Math_max m v) (map value1 rest) (value1 r0);
          tc = (if length metricRecords \<ge> 2 then
                  (let first = value1 r0;
                       lst = value1 (last metricRecords);
                       ch = lst - first;
                       th = threshold metric
                   in (if ch > th then up else if ch < - th then down else stable, ch))
                else (none, 0))
      in \<lparr> current = cur,
           avg = Some (toFixed1 av),
           min_stat = Some (toFixed1 mn),
           max_stat = Some (toFixed1 mx),
           trend = fst tc,
           change = toFixed1 (snd tc) \<rparr>)"

text \<open>\<^verbatim>\<open>data.filter(r => r.metric_type === metric)\<close>.\<close>

definition metricRecords :: "MetricType \<Rightarrow> healthLog list \<Rightarrow> healthLog list" where
  "metricRecords metric data = filter (\<lambda>r. metric_type r = metric_name metric) data"

text \<open>One round of \<^verbatim>\<open>METRIC_TYPES.forEach\<close>: \<^verbatim>\<open>newStats[metric]\<close> is written only when
  some record matches.\<close>

definition updateMetric ::
  "healthLog list \<Rightarrow> MetricType \<Rightarrow> (MetricType \<Rightarrow> summary) \<Rightarrow> (MetricType \<Rightarrow> summary)" where
  "updateMetric data metric newStats =
     (case metricRecords metric data of
        [] \<Rightarrow> newStats
      | r0 # rest \<Rightarrow> newStats(metric := metricSummary metric r0 rest))"

text \<open>
  \<^verbatim>\<open>calculateStats\<close> reads the variable \<^verbatim>\<open>stats\<close> of the render it was created in
  (\<^verbatim>\<open>const newStats = { ...stats }\<close>); that variable is the first argument. The result is
  what it passes to \<^verbatim>\<open>setStats\<close>.
\<close>

definition calculateStats ::
  "(MetricType \<Rightarrow> summary) \<Rightarrow> healthLog list \<Rightarrow> (MetricType \<Rightarrow> summary)" where
  "calculateStats stats0 data = fold (updateMetric data) METRIC_TYPES stats0"

section \<open>The component's state and loadData\<close>

text \<open>The initial value given to \<^verbatim>\<open>useState\<close> for \<^verbatim>\<open>stats\<close>.\<close>

definition initialStats :: "MetricType \<Rightarrow> summary" where
  "initialStats = (\<lambda>_. \<lparr> current = None, avg = None, min_stat = None, max_stat = None,
                          trend = none, change = 0 \<rparr>)"

datatype TimeRange = week | month | year

text \<open>
  The state of a mounted component between two renders. \<open>records\<close>, \<open>stats\<close>,
  \<open>selectedMetric\<close> and \<open>timeRange\<close> are \<^verbatim>\<open>useState\<close> cells.

  \<^verbatim>\<open>loadData\<close> is \<^verbatim>\<open>useCallback(async () => { ... }, [])\<close>. A function created by a render
  is represented by the variables of that render which it reads: for \<^verbatim>\<open>loadData\<close> that
  is \<^verbatim>\<open>stats\<close>, read by the \<^verbatim>\<open>calculateStats\<close> it calls (\<^verbatim>\<open>calculateStats\<close> has no other
  caller). \<open>loadData_stats\<close> is the cell of that \<^verbatim>\<open>useCallback\<close>: the \<^verbatim>\<open>stats\<close> of the
  render whose \<^verbatim>\<open>loadData\<close> is the one in use.
\<close>

record screen =
  records :: "healthLog list"
  stats :: "MetricType \<Rightarrow> summary"
  selectedMetric :: MetricType
  timeRange :: TimeRange
  loadData_stats :: "MetricType \<Rightarrow> summary"

text \<open>\<^verbatim>\<open>useCallback(fn, deps)\<close> on a render after the first: the stored function is
  returned, unless the dependencies have changed, in which case \<open>fn\<close> is stored and
  returned.\<close>

definition useCallback :: "'f \<Rightarrow> 'f \<Rightarrow> bool \<Rightarrow> 'f" where
  "useCallback stored fn depsChanged = (if depsChanged then fn else stored)"

text \<open>The first render: every cell has its initial value, and the \<^verbatim>\<open>loadData\<close> created by
  this render is stored.\<close>

definition mount :: screen where
  "mount = \<lparr> records = [], stats = initialStats, selectedMetric = weight, timeRange = week,
             loadData_stats = initialStats \<rparr>"

text \<open>A later render, after some cell was written. The dependency list of \<^verbatim>\<open>loadData\<close> is
  \<^verbatim>\<open>[]\<close>, which never changes.\<close>

definition render :: "screen \<Rightarrow> screen" where
  "render s = s\<lparr> loadData_stats := useCallback (loadData_stats s) (stats s) False \<rparr>"

text \<open>\<^verbatim>\<open>loadData\<close> when \<^verbatim>\<open>apiGet\<close> resolves with \<open>data\<close>: \<^verbatim>\<open>setRecords(data)\<close>, then
  \<^verbatim>\<open>calculateStats(data)\<close>, which ends in \<^verbatim>\<open>setStats(newStats)\<close>; the component renders
  again. When \<^verbatim>\<open>apiGet\<close> rejects, no state is written.\<close>

definition loadData :: "healthLog list \<Rightarrow> screen \<Rightarrow> screen" where
  "loadData data s =
     render (s\<lparr> records := data, stats := calculateStats (loadData_stats s) data \<rparr>)"

definition setSelectedMetric :: "MetricType \<Rightarrow> screen \<Rightarrow> screen" where
  "setSelectedMetric m s = render (s\<lparr> selectedMetric := m \<rparr>)"

definition setTimeRange :: "TimeRange \<Rightarrow> screen \<Rightarrow> screen" where
  "setTimeRange t s = render (s\<lparr> timeRange := t \<rparr>)"

text \<open>The states a mounted component can be in.\<close>

inductive reachable :: "screen \<Rightarrow> bool" where
  r_mount: "reachable mount"
| r_load: "reachable s \<Longrightarrow> reachable (loadData data s)"
| r_metric: "reachable s \<Longrightarrow> reachable (setSelectedMetric m s)"
| r_range: "reachable s \<Longrightarrow> reachable (setTimeRange t s)"

section \<open>Dates\<close>

text \<open>
  The component takes its date arithmetic from the library \<^verbatim>\<open>date-fns\<close>
  (\<^verbatim>\<open>parseISO\<close>, \<^verbatim>\<open>format\<close>, \<^verbatim>\<open>subDays\<close>, \<^verbatim>\<open>startOfWeek\<close>, \<^verbatim>\<open>endOfWeek\<close>), which is
  not part of the repository. A \<^verbatim>\<open>Date\<close> is its time value: \<open>Some t\<close>, or \<open>None\<close> for an
  Invalid Date (time value NaN); \<^verbatim>\<open>parseISO\<close> returns an Invalid Date for a text it
  cannot read, and \<^verbatim>\<open>format\<close> throws on an Invalid Date.

  What the library computes on valid dates depends on the time zone of the device: it
  works on local calendar days. These functions are taken as parameters, the fields of
  \<open>dateFns\<close>: \<open>subDays\<close>, \<open>startOfWeek\<close> and \<open>endOfWeek\<close> on time values, and
  \<open>formatValid t p\<close>, the text \<^verbatim>\<open>format\<close> prints for the valid date \<open>t\<close> and the
  pattern \<open>p\<close>.
\<close>

record dateFns =
  subDays :: "int \<Rightarrow> int \<Rightarrow> int"
  startOfWeek :: "int \<Rightarrow> int"
  endOfWeek :: "int \<Rightarrow> int"
  formatValid :: "int \<Rightarrow> string \<Rightarrow> string"

fun parseISO :: "timestamp \<Rightarrow> int option" where
  "parseISO Missing = None"
| "parseISO Unparsable = None"
| "parseISO (ISO t) = Some t"

text \<open>\<^verbatim>\<open>a >= b\<close> and \<^verbatim>\<open>a <= b\<close> on two \<^verbatim>\<open>Date\<close>s compare the time values; a comparison
  with NaN is false.\<close>

definition date_ge :: "int option \<Rightarrow> int option \<Rightarrow> bool" where
  "date_ge a b = (case (a, b) of (Some x, Some y) \<Rightarrow> x \<ge> y | _ \<Rightarrow> False)"

definition date_le :: "int option \<Rightarrow> int option \<Rightarrow> bool" where
  "date_le a b = (case (a, b) of (Some x, Some y) \<Rightarrow> x \<le> y | _ \<Rightarrow> False)"

datatype jsError = RangeError | TypeError

text \<open>\<^verbatim>\<open>format(date, pattern)\<close>: \<^verbatim>\<open>RangeError: Invalid time value\<close> when the date is an
  Invalid Date.\<close>

definition format :: "dateFns \<Rightarrow> int option \<Rightarrow> string \<Rightarrow> jsError + string" where
  "format lib d pattern =
     (case d of None \<Rightarrow> Inl RangeError | Some t \<Rightarrow> Inr (formatValid lib t pattern))"

subsection \<open>The library in the zone UTC\<close>

text \<open>
  On a device whose zone is UTC a local day is 86400000 ms and there is no clock change.
  What the library computes there is the instance \<open>utc\<close>, used for the concrete
  scenarios below.
\<close>

definition msPerDay :: int where
  "msPerDay = 86400000"

definition utc_subDays :: "int \<Rightarrow> int \<Rightarrow> int" where
  "utc_subDays t n = t - n * msPerDay"

text \<open>The calendar date (year, month 1..12, day of month) of a day number counted from
  1970-01-01, in the proleptic Gregorian calendar.\<close>

definition civil :: "int \<Rightarrow> int \<times> int \<times> int" where
  "civil days =
     (let z = days + 719468;
          era = z div 146097;
          doe = z - era * 146097;
          yoe = (doe - doe div 1460 + doe div 36524 - doe div 146096) div 365;
          doy = doe - (365 * yoe + yoe div 4 - yoe div 100);
          mp = (5 * doy + 2) div 153;
          d = doy - (153 * mp + 2) div 5 + 1;
          m = (if mp < 10 then mp + 3 else mp - 9);
          y = yoe + era * 400 + (if m \<le> 2 then 1 else 0)
      in (y, m, d))"

definition getFullYear :: "int \<Rightarrow> int" where
  "getFullYear t = fst (civil (t div msPerDay))"

text \<open>\<^verbatim>\<open>getMonth() + 1\<close>.\<close>

definition getMonth1 :: "int \<Rightarrow> int" where
  "getMonth1 t = fst (snd (civil (t div msPerDay)))"

definition getDate :: "int \<Rightarrow> int" where
  "getDate t = snd (snd (civil (t div msPerDay)))"

text \<open>Day of the week, 0 for Sunday; 1970-01-01 was a Thursday.\<close>

definition getDay :: "int \<Rightarrow> int" where
  "getDay t = (t div msPerDay + 4) mod 7"

function decimal :: "nat \<Rightarrow> string" where
  "decimal n = (if n < 10 then [''0123456789'' ! n]
                else decimal (n div 10) @ [''0123456789'' ! (n mod 10)])"
  by pat_completeness auto
termination
  by (relation "measure id") auto

definition addLeadingZeros :: "nat \<Rightarrow> nat \<Rightarrow> string" where
  "addLeadingZeros n len = replicate (len - length (decimal n)) CHR ''0'' @ decimal n"

text \<open>What \<^verbatim>\<open>format\<close> prints for a valid date with the patterns \<^verbatim>\<open>'MM/dd'\<close> and
  \<^verbatim>\<open>'yyyy-MM-dd'\<close>, the two patterns of the functions modelled here.\<close>

definition MMdd :: "int \<Rightarrow> string" where
  "MMdd t = addLeadingZeros (nat (getMonth1 t)) 2 @ ''/'' @ addLeadingZeros (nat (getDate t)) 2"

definition yyyyMMdd :: "int \<Rightarrow> string" where
  "yyyyMMdd t =
     (let signedYear = getFullYear t;
          yr = (if signedYear > 0 then signedYear else 1 - signedYear)
      in addLeadingZeros (nat yr) 4 @ ''-'' @ addLeadingZeros (nat (getMonth1 t)) 2 @ ''-''
         @ addLeadingZeros (nat (getDate t)) 2)"

definition utc_formatValid :: "int \<Rightarrow> string \<Rightarrow> string" where
  "utc_formatValid t pattern =
     (if pattern = ''MM/dd'' then MMdd t
      else if pattern = ''yyyy-MM-dd'' then yyyyMMdd t
      else pattern)"

text \<open>\<^verbatim>\<open>startOfWeek\<close> and \<^verbatim>\<open>endOfWeek\<close> with the default \<^verbatim>\<open>weekStartsOn: 0\<close>: Sunday
  00:00:00.000 and Saturday 23:59:59.999.\<close>

definition utc_startOfWeek :: "int \<Rightarrow> int" where
  "utc_startOfWeek t = (t div msPerDay - getDay t) * msPerDay"

definition utc_endOfWeek :: "int \<Rightarrow> int" where
  "utc_endOfWeek t = utc_startOfWeek t + 7 * msPerDay - 1"

definition utc :: dateFns where
  "utc = \<lparr> subDays = utc_subDays, startOfWeek = utc_startOfWeek, endOfWeek = utc_endOfWeek,
           formatValid = utc_formatValid \<rparr>"

section \<open>getChartData\<close>

fun daysToShow :: "TimeRange \<Rightarrow> int" where
  "daysToShow week = 7"
| "daysToShow month = 30"
| "daysToShow year = 365"

text \<open>The callback of \<^verbatim>\<open>records.filter\<close>; \<open>now\<close> is \<^verbatim>\<open>new Date()\<close>.\<close>

definition inWindow :: "dateFns \<Rightarrow> int \<Rightarrow> TimeRange \<Rightarrow> MetricType \<Rightarrow> healthLog \<Rightarrow> bool" where
  "inWindow lib now trange metric r =
     (let startDate = Some (subDays lib now (daysToShow trange)) in
      if logged_at r = Missing then False
      else (let recordDate = parseISO (logged_at r)
            in date_ge recordDate startDate \<and> metric_type r = metric_name metric))"

text \<open>
  The key of \<^verbatim>\<open>.sort((a, b) => parseISO(a.logged_at).getTime() - parseISO(b.logged_at).getTime())\<close>.
  The sort is stable. Only records that passed the filter are sorted, and those have a valid
  date (lemma \<open>selectedRecords_valid\<close>), so the NaN of an Invalid Date never reaches the
  comparator; the key given to such a date here is never used.
\<close>

definition getTime :: "healthLog \<Rightarrow> int" where
  "getTime r = (case parseISO (logged_at r) of Some t \<Rightarrow> t | None \<Rightarrow> 0)"

definition selectedRecords ::
  "dateFns \<Rightarrow> int \<Rightarrow> TimeRange \<Rightarrow> MetricType \<Rightarrow> healthLog list \<Rightarrow> healthLog list" where
  "selectedRecords lib now trange metric rs =
     sort_key getTime (filter (inWindow lib now trange metric) rs)"

text \<open>
  \<^verbatim>\<open>groupedData\<close>: an object from day label to \<^verbatim>\<open>{ sum, count }\<close>, as the list of its
  entries in insertion order. One round of the \<^verbatim>\<open>forEach\<close> creates the entry
  \<^verbatim>\<open>{ sum: 0, count: 0 }\<close> when the key is new, then adds the value and counts it.
\<close>

type_synonym groupedData = "(string \<times> number \<times> nat) list"

fun addToGroup :: "string \<Rightarrow> number \<Rightarrow> groupedData \<Rightarrow> groupedData" where
  "addToGroup dateKey v [] = [(dateKey, 0 + v, 0 + 1)]"
| "addToGroup dateKey v ((k, sm, cnt) # g) =
     (if k = dateKey then (k, sm + v, cnt + 1) # g else (k, sm, cnt) # addToGroup dateKey v g)"

fun groupRecords :: "dateFns \<Rightarrow> healthLog list \<Rightarrow> groupedData \<Rightarrow> jsError + groupedData" where
  "groupRecords lib [] g = Inr g"
| "groupRecords lib (record # rs) g =
     (case format lib (parseISO (logged_at record)) ''MM/dd'' of
        Inl e \<Rightarrow> Inl e
      | Inr dateKey \<Rightarrow> groupRecords lib rs (addToGroup dateKey (value1 record) g))"

text \<open>\<^verbatim>\<open>dates.map(date => groupedData[date].sum / groupedData[date].count)\<close>; reading a
  property of \<^verbatim>\<open>undefined\<close> throws a \<^verbatim>\<open>TypeError\<close>.\<close>

fun dayValues :: "groupedData \<Rightarrow> string list \<Rightarrow> jsError + number list" where
  "dayValues g [] = Inr []"
| "dayValues g (date # dates) =
     (case map_of g date of
        None \<Rightarrow> Inl TypeError
      | Some (sm, cnt) \<Rightarrow>
          (case dayValues g dates of Inl e \<Rightarrow> Inl e | Inr vs \<Rightarrow> Inr (divide_by sm cnt # vs)))"

text \<open>The chart data: \<^verbatim>\<open>labels\<close> and \<^verbatim>\<open>datasets[0].data\<close> (here \<open>datasets_data\<close>; colour
  and stroke width are presentation).\<close>

record chartData =
  labels :: "string list"
  datasets_data :: "number list"

text \<open>The label of the "no data" series, as its UTF-8 bytes.\<close>

definition noDataLabel :: string where
  "noDataLabel = [CHR 0xE6, CHR 0x9A, CHR 0x82, CHR 0xE6, CHR 0x97, CHR 0xA0,
                  CHR 0xE6, CHR 0x95, CHR 0xB0, CHR 0xE6, CHR 0x8D, CHR 0xAE]"

definition getChartData ::
  "dateFns \<Rightarrow> int \<Rightarrow> TimeRange \<Rightarrow> MetricType \<Rightarrow> healthLog list \<Rightarrow> jsError + chartData" where
  "getChartData lib now trange metric rs =
     (case groupRecords lib (selectedRecords lib now trange metric rs) [] of
        Inl e \<Rightarrow> Inl e
      | Inr groupedData \<Rightarrow>
          (let dates = sort (map fst groupedData) in
           case dayValues groupedData dates of
             Inl e \<Rightarrow> Inl e
           | Inr vals \<Rightarrow>
               if length dates = 0 then Inr \<lparr> labels = [noDataLabel], datasets_data = [0] \<rparr>
               else Inr \<lparr> labels = dates, datasets_data = vals \<rparr>))"

section \<open>getWeekComparison\<close>

text \<open>The callback of the two \<^verbatim>\<open>records.filter\<close> calls, for the week from \<open>start\<close> to
  \<open>end\<close>.\<close>

definition inWeek :: "int \<Rightarrow> int \<Rightarrow> MetricType \<Rightarrow> healthLog \<Rightarrow> bool" where
  "inWeek start end metric r =
     (if logged_at r = Missing then False
      else (let date = parseISO (logged_at r)
            in date_ge date (Some start) \<and> date_le date (Some end)
               \<and> metric_type r = metric_name metric))"

text \<open>\<^verbatim>\<open>rs.length > 0 ? rs.reduce((sum, r) => sum + r.value1, 0) / rs.length : 0\<close>.\<close>

definition weekAvg :: "healthLog list \<Rightarrow> number" where
  "weekAvg rs =
     (if length rs > 0 then divide_by (foldl (\<lambda>sum r. sum + value1 r) 0 rs) (length rs) else 0)"

record weekComparison =
  currentWeekAvg :: number
  lastWeekAvg :: number
  weekChange :: number

definition getWeekComparison ::
  "dateFns \<Rightarrow> int \<Rightarrow> MetricType \<Rightarrow> healthLog list \<Rightarrow> weekComparison" where
  "getWeekComparison lib today metric rs =
     (let startOfCurrentWeek = startOfWeek lib today;
          endOfCurrentWeek = endOfWeek lib today;
          startOfLastWeek = startOfWeek lib (subDays lib today 7);
          endOfLastWeek = endOfWeek lib (subDays lib today 7);
          currentWeekRecords = filter (inWeek startOfCurrentWeek endOfCurrentWeek metric) rs;
          lastWeekRecords = filter (inWeek startOfLastWeek endOfLastWeek metric) rs;
          cur = weekAvg currentWeekRecords;
          lst = weekAvg lastWeekRecords
      in \<lparr> currentWeekAvg = toFixed1 cur,
           lastWeekAvg = toFixed1 lst,
           weekChange = toFixed1 (cur - lst) \<rparr>)"

section \<open>getMarkedDates\<close>

text \<open>One entry of \<^verbatim>\<open>marked\<close>; an absent property is \<open>None\<close>.\<close>

record marking =
  marked :: "bool option"
  dotColor :: "string option"
  selected :: "bool option"
  selectedColor :: "string option"

text \<open>\<^verbatim>\<open>metricConfig[record.metric_type as MetricType]?.color || '#4F46E5'\<close>.\<close>

definition dotColorOf :: "string \<Rightarrow> string" where
  "dotColorOf mt =
     (if mt = ''weight'' then ''#4F46E5''
      else if mt = ''heartRate'' then ''#DC2626''
      else if mt = ''steps'' then ''#10B981''
      else if mt = ''sleep'' then ''#8B5CF6''
      else if mt = ''water'' then ''#0EA5E9''
      else ''#4F46E5'')"

text \<open>The \<^verbatim>\<open>records.forEach\<close> of \<^verbatim>\<open>getMarkedDates\<close>. A record without \<^verbatim>\<open>logged_at\<close>
  is skipped; for every other record \<^verbatim>\<open>format\<close> is called on what \<^verbatim>\<open>parseISO\<close>
  returned.\<close>

fun markRecords ::
  "dateFns \<Rightarrow> healthLog list \<Rightarrow> (string \<rightharpoonup> marking) \<Rightarrow> jsError + (string \<rightharpoonup> marking)" where
  "markRecords lib [] mk = Inr mk"
| "markRecords lib (record # rs) mk =
     (if logged_at record = Missing then markRecords lib rs mk
      else (case format lib (parseISO (logged_at record)) ''yyyy-MM-dd'' of
              Inl e \<Rightarrow> Inl e
            | Inr dateKey \<Rightarrow>
                (case mk dateKey of
                   None \<Rightarrow>
                     markRecords lib rs
                       (mk(dateKey \<mapsto> \<lparr> marked = Some True,
                                        dotColor = Some (dotColorOf (metric_type record)),
                                        selected = None, selectedColor = None \<rparr>))
                 | Some _ \<Rightarrow> markRecords lib rs mk)))"

definition getMarkedDates ::
  "dateFns \<Rightarrow> string \<Rightarrow> healthLog list \<Rightarrow> jsError + (string \<rightharpoonup> marking)" where
  "getMarkedDates lib selectedDate rs =
     (case markRecords lib rs Map.empty of
        Inl e \<Rightarrow> Inl e
      | Inr mk \<Rightarrow>
          Inr (mk(selectedDate \<mapsto>
                 (case mk selectedDate of
                    None \<Rightarrow> \<lparr> marked = None, dotColor = None,
                              selected = Some True, selectedColor = Some ''#4F46E5'' \<rparr>
                  | Some e \<Rightarrow> e\<lparr> selected := Some True, selectedColor := Some ''#4F46E5'' \<rparr>))))"

section \<open>Facts about numbers\<close>

text \<open>The overflow bound as a numeral, for evaluation.\<close>

lemma pow2_1024:
  "pow2 1024 = 179769313486231590772930519078902473361797697894230657273430081157732675805500963132708477322407536021120113879871393357658789768814416622492847430639474124377767893424865485276302219601246094119453082952085005768838150682342462881473913110540827237163350510684586298239947245938479716304835356329624224137216"
  by (simp add: pow2_def)

lemma fl_code [code]:
  "fl x =
     (if x = 0 then Fin 0
      else (let q = pow2 (max (ilog2 \<bar>x\<bar>) (- 1022) - 52);
                v = of_int (roundHalfEven (\<bar>x\<bar> / q)) * q
            in if 179769313486231590772930519078902473361797697894230657273430081157732675805500963132708477322407536021120113879871393357658789768814416622492847430639474124377767893424865485276302219601246094119453082952085005768838150682342462881473913110540827237163350510684586298239947245938479716304835356329624224137216 \<le> v
               then (if 0 < x then PosInf else NegInf)
               else Fin (if 0 < x then v else - v)))"
  by (simp only: fl_def pow2_1024)

text \<open>Powers of two and the binary exponent.\<close>

lemma pow2_powi: "pow2 e = 2 powi e"
  by (simp add: pow2_def power_int_def inverse_eq_divide power_one_over)

lemma pow2_pos: "0 < pow2 e"
  by (simp add: pow2_powi)

lemma pow2_add: "pow2 (a + b) = pow2 a * pow2 b"
  by (simp add: pow2_powi power_int_add)

lemma pow2_mono: "a \<le> b \<Longrightarrow> pow2 a \<le> pow2 b"
  by (simp add: pow2_powi power_int_increasing)

lemma pow2_nat: "pow2 (int n) = 2 ^ n"
  by (simp add: pow2_def)

lemma pow2_strict_mono: "a < b \<Longrightarrow> pow2 a < pow2 b"
  by (simp add: pow2_powi power_int_strict_increasing)

lemma pow2_less_iff: "pow2 a < pow2 b \<longleftrightarrow> a < b"
proof
  assume "pow2 a < pow2 b"
  show "a < b"
  proof (rule ccontr)
    assume "\<not> a < b"
    then have "pow2 b \<le> pow2 a"
      by (simp add: pow2_mono)
    with \<open>pow2 a < pow2 b\<close> show False by simp
  qed
next
  assume "a < b"
  then show "pow2 a < pow2 b" by (rule pow2_strict_mono)
qed

lemma pow2_diff_nat: "b \<le> a \<Longrightarrow> pow2 a = of_int (2 ^ nat (a - b)) * pow2 b"
proof -
  assume "b \<le> a"
  then have "pow2 (a - b) = of_int (2 ^ nat (a - b))"
    by (simp add: pow2_def)
  moreover have "pow2 a = pow2 (a - b) * pow2 b"
    by (simp add: pow2_add [symmetric])
  ultimately show ?thesis by simp
qed

lemma ilog2_bounds:
  assumes "0 < x"
  shows "pow2 (ilog2 x) \<le> x \<and> x < pow2 (ilog2 x + 1)"
proof -
  obtain a b where q: "quotient_of x = (a, b)"
    by (cases "quotient_of x")
  have b: "0 < b"
    using q by (rule quotient_of_denom_pos)
  have x: "x = of_int a / of_int b"
    using q by (rule quotient_of_div)
  have a: "0 < a"
    using assms b x by (simp add: zero_less_divide_iff)
  define la lb where "la = bitlen a" and "lb = bitlen b"
  have la: "2 ^ nat (la - 1) \<le> a" "a < 2 ^ nat la"
    using bitlen_bounds [OF a] by (simp_all add: la_def)
  have lb: "2 ^ nat (lb - 1) \<le> b" "b < 2 ^ nat lb"
    using bitlen_bounds [OF b] by (simp_all add: lb_def)
  have la1: "1 \<le> la" and lb1: "1 \<le> lb"
    using a b by (simp_all add: la_def lb_def bitlen_alt_def)
  have A: "pow2 (la - 1) \<le> of_int a" "of_int a < pow2 la"
  proof -
    have "pow2 (la - 1) = of_int (2 ^ nat (la - 1))"
      using la1 by (simp add: pow2_def)
    also have "\<dots> \<le> of_int a"
      using la(1) by (simp only: of_int_le_iff)
    finally show "pow2 (la - 1) \<le> of_int a" .
    have "(of_int a :: rat) < of_int (2 ^ nat la)"
      using la(2) by (simp only: of_int_less_iff)
    also have "\<dots> = pow2 la"
      using la1 by (simp add: pow2_def)
    finally show "of_int a < pow2 la" .
  qed
  have B: "pow2 (lb - 1) \<le> of_int b" "of_int b < pow2 lb"
  proof -
    have "pow2 (lb - 1) = of_int (2 ^ nat (lb - 1))"
      using lb1 by (simp add: pow2_def)
    also have "\<dots> \<le> of_int b"
      using lb(1) by (simp only: of_int_le_iff)
    finally show "pow2 (lb - 1) \<le> of_int b" .
    have "(of_int b :: rat) < of_int (2 ^ nat lb)"
      using lb(2) by (simp only: of_int_less_iff)
    also have "\<dots> = pow2 lb"
      using lb1 by (simp add: pow2_def)
    finally show "of_int b < pow2 lb" .
  qed
  have bpos: "(0::rat) < of_int b"
    using b by simp
  have up: "x < pow2 (la - lb + 1)"
  proof -
    have "of_int a * pow2 (lb - 1) < pow2 la * of_int b"
      using A(2) B(1) bpos pow2_pos [of "lb - 1"] pow2_pos [of la]
      by (meson less_le_trans mult_le_cancel_left_pos mult_less_cancel_right_pos)
    moreover have "pow2 la = pow2 (la - lb + 1) * pow2 (lb - 1)"
      by (simp add: pow2_add [symmetric])
    ultimately have "of_int a * pow2 (lb - 1) < pow2 (la - lb + 1) * of_int b * pow2 (lb - 1)"
      by (simp add: mult.assoc mult.commute mult.left_commute)
    then have "of_int a < pow2 (la - lb + 1) * of_int b"
      using pow2_pos [of "lb - 1"] by simp
    then show ?thesis
      using bpos by (simp add: x pos_divide_less_eq)
  qed
  have low: "pow2 (la - lb - 1) \<le> x"
  proof -
    have "pow2 (la - 1) * of_int b \<le> of_int a * pow2 lb"
      using A(1) B(2) bpos pow2_pos [of "la - 1"] pow2_pos [of lb]
      by (meson less_imp_le mult_mono order_trans zero_le_mult_iff)
    moreover have "pow2 (la - 1) = pow2 (la - lb - 1) * pow2 lb"
      by (simp add: pow2_add [symmetric])
    ultimately have "pow2 (la - lb - 1) * of_int b * pow2 lb \<le> of_int a * pow2 lb"
      by (simp add: mult.assoc mult.commute mult.left_commute)
    then have "pow2 (la - lb - 1) * of_int b \<le> of_int a"
      using pow2_pos [of lb] by simp
    then show ?thesis
      using bpos by (simp add: x pos_le_divide_eq)
  qed
  have k: "ilog2 x = (if pow2 (la - lb) \<le> x then la - lb else la - lb - 1)"
    by (simp add: ilog2_def q la_def lb_def Let_def)
  show ?thesis
  proof (cases "pow2 (la - lb) \<le> x")
    case True
    with up k show ?thesis by simp
  next
    case False
    with low k show ?thesis by simp
  qed
qed

lemma ilog2_unique:
  assumes "0 < x" "pow2 e \<le> x" "x < pow2 (e + 1)"
  shows "ilog2 x = e"
proof -
  have b: "pow2 (ilog2 x) \<le> x" "x < pow2 (ilog2 x + 1)"
    using ilog2_bounds [OF assms(1)] by simp_all
  have "pow2 e < pow2 (ilog2 x + 1)"
    using assms(2) b(2) by simp
  then have 1: "e \<le> ilog2 x"
    by (simp add: pow2_less_iff)
  have "pow2 (ilog2 x) < pow2 (e + 1)"
    using assms(3) b(1) by simp
  then have 2: "ilog2 x \<le> e"
    by (simp add: pow2_less_iff)
  from 1 2 show ?thesis by simp
qed

lemma roundHalfEven_of_int: "roundHalfEven (of_int n) = n"
  by (simp add: roundHalfEven_def)

lemma roundHalfEven_near: "\<bar>of_int (roundHalfEven y) - y\<bar> \<le> 1 / 2"
proof -
  have "of_int \<lfloor>y\<rfloor> \<le> y" "y < of_int \<lfloor>y\<rfloor> + 1"
    by linarith+
  then show ?thesis
    unfolding roundHalfEven_def Let_def
    by (auto simp: abs_le_iff) 
qed

lemma roundHalfEven_ge: "of_int n \<le> y \<Longrightarrow> n \<le> roundHalfEven y"
proof -
  assume "of_int n \<le> y"
  then have "n \<le> \<lfloor>y\<rfloor>"
    by (simp add: le_floor_iff)
  then show ?thesis
    unfolding roundHalfEven_def Let_def by auto
qed

lemma roundHalfEven_le: "y \<le> of_int n \<Longrightarrow> roundHalfEven y \<le> n"
proof -
  assume a: "y \<le> of_int n"
  show ?thesis
  proof (cases "y = of_int n")
    case True
    then show ?thesis by (simp add: roundHalfEven_of_int)
  next
    case False
    with a have "y < of_int n" by simp
    then have "\<lfloor>y\<rfloor> < n"
      by (simp add: floor_less_iff)
    then show ?thesis
      unfolding roundHalfEven_def Let_def by auto
  qed
qed

text \<open>The significand \<open>m\<close> and the grid step \<open>q\<close> of a finite result.\<close>

lemma fl_finite:
  assumes "fl x = Fin y" and "x \<noteq> 0"
  defines "q \<equiv> pow2 (max (ilog2 \<bar>x\<bar>) (- 1022) - 52)"
  obtains m :: int where
    "0 \<le> m" and "m \<le> 2 ^ 53" and "- 1022 \<le> ilog2 \<bar>x\<bar> \<Longrightarrow> 2 ^ 52 \<le> m"
    and "y = (if 0 < x then of_int m * q else - (of_int m * q))"
    and "of_int m * q < pow2 1024" and "\<bar>of_int m * q - \<bar>x\<bar>\<bar> \<le> q / 2"
proof -
  define m where "m = roundHalfEven (\<bar>x\<bar> / q)"
  have qpos: "0 < q"
    by (simp add: q_def pow2_pos)
  have ax: "0 < \<bar>x\<bar>"
    using assms(2) by simp
  have y: "y = (if 0 < x then of_int m * q else - (of_int m * q))"
    using assms(1) assms(2) by (simp add: fl_def Let_def q_def m_def split: if_splits)
  have fin: "of_int m * q < pow2 1024"
    using assms(1) assms(2) by (simp add: fl_def Let_def q_def m_def split: if_splits)
  have near: "\<bar>of_int m - \<bar>x\<bar> / q\<bar> \<le> 1 / 2"
    unfolding m_def by (rule roundHalfEven_near)
  have "of_int m * q - \<bar>x\<bar> = (of_int m - \<bar>x\<bar> / q) * q"
    using qpos by (simp add: left_diff_distrib)
  then have "\<bar>of_int m * q - \<bar>x\<bar>\<bar> = \<bar>of_int m - \<bar>x\<bar> / q\<bar> * q"
    using qpos by (simp only: abs_mult abs_of_pos)
  also have "\<dots> \<le> (1 / 2) * q"
    using near qpos by (simp add: mult_right_mono)
  finally have err: "\<bar>of_int m * q - \<bar>x\<bar>\<bar> \<le> q / 2"
    by simp
  have m0: "0 \<le> m"
    unfolding m_def using roundHalfEven_ge [of 0 "\<bar>x\<bar> / q"] qpos by simp
  have "\<bar>x\<bar> < pow2 (ilog2 \<bar>x\<bar> + 1)"
    using ilog2_bounds [OF ax] by simp
  also have "\<dots> \<le> pow2 (max (ilog2 \<bar>x\<bar>) (- 1022) + 1)"
    by (rule pow2_mono) simp
  also have "\<dots> = of_int (2 ^ 53) * q"
    unfolding q_def using pow2_diff_nat [of "max (ilog2 \<bar>x\<bar>) (- 1022) - 52" "max (ilog2 \<bar>x\<bar>) (- 1022) + 1"]
    by simp
  finally have "\<bar>x\<bar> / q \<le> of_int (2 ^ 53)"
    using qpos by (simp add: pos_divide_le_eq)
  then have m53: "m \<le> 2 ^ 53"
    unfolding m_def by (rule roundHalfEven_le)
  have m52: "2 ^ 52 \<le> m" if "- 1022 \<le> ilog2 \<bar>x\<bar>"
  proof -
    from that have q': "q = pow2 (ilog2 \<bar>x\<bar> - 52)"
      by (simp add: q_def max_def)
    have "of_int (2 ^ 52) * q = pow2 (ilog2 \<bar>x\<bar>)"
      unfolding q' using pow2_diff_nat [of "ilog2 \<bar>x\<bar> - 52" "ilog2 \<bar>x\<bar>"] by simp
    also have "\<dots> \<le> \<bar>x\<bar>"
      using ilog2_bounds [OF ax] by simp
    finally have "of_int (2 ^ 52) \<le> \<bar>x\<bar> / q"
      using qpos by (simp add: pos_le_divide_eq)
    then show ?thesis
      unfolding m_def by (rule roundHalfEven_ge)
  qed
  show thesis
    using that [of m] m0 m53 m52 y fin err by blast
qed

text \<open>A finite result of \<open>fl\<close> lies on the grid of the doubles around \<open>x\<close>, with a
  significand of at most 53 bits, and no further from \<open>x\<close> than half a grid step.\<close>

lemma fl_nearest:
  assumes "fl x = Fin y" and "x \<noteq> 0"
  defines "q \<equiv> pow2 (max (ilog2 \<bar>x\<bar>) (- 1022) - 52)"
  shows "\<exists>m::int. y = of_int m * q \<and> \<bar>m\<bar> \<le> 2 ^ 53 \<and> \<bar>y - x\<bar> \<le> q / 2"
proof -
  obtain m :: int where m: "0 \<le> m" "m \<le> 2 ^ 53"
    "y = (if 0 < x then of_int m * q else - (of_int m * q))"
    "\<bar>of_int m * q - \<bar>x\<bar>\<bar> \<le> q / 2"
    using fl_finite [OF assms(1,2)] unfolding q_def by metis
  show ?thesis
  proof (cases "0 < x")
    case True
    with m show ?thesis
      by (intro exI [of _ m]) simp
  next
    case False
    then have "\<bar>x\<bar> = - x" by simp
    with m(4) have "\<bar>of_int m * q + x\<bar> \<le> q / 2"
      by simp
    moreover have "y - x = - (of_int m * q + x)"
      using m(3) False by simp
    ultimately have "\<bar>y - x\<bar> \<le> q / 2"
      by (simp only: abs_minus_cancel)
    moreover have "y = of_int (- m) * q"
      using m(3) False by simp
    ultimately show ?thesis
      using m(1,2) by (intro exI [of _ "- m"]) simp
  qed
qed

text \<open>Every double is left as it is: a significand below \<open>2^53\<close> in absolute value and
  an exponent from \<open>-1074\<close> to \<open>971\<close>.\<close>

lemma fl_exact:
  assumes "\<bar>m\<bar> < 2 ^ 53" and "- 1074 \<le> e" and "e \<le> 971"
  shows "fl (of_int m * pow2 e) = Fin (of_int m * pow2 e)"
proof (cases "m = 0")
  case True
  then show ?thesis by (simp add: fl_def)
next
  case False
  define x where "x = of_int m * pow2 e"
  define a where "a = \<bar>x\<bar>"
  have a: "a = of_int \<bar>m\<bar> * pow2 e"
    by (simp add: a_def x_def abs_mult pow2_pos less_imp_le)
  have apos: "0 < a"
    using False by (simp add: a pow2_pos)
  define L where "L = ilog2 a"
  define E where "E = max L (- 1022) - 52"
  have "pow2 L \<le> a"
    unfolding L_def using ilog2_bounds [OF apos] by simp
  also have "a < of_int (2 ^ 53) * pow2 e"
    unfolding a using assms(1) pow2_pos [of e] by (simp only: mult_less_cancel_right_pos of_int_less_iff)
  also have "\<dots> = pow2 (e + 53)"
    using pow2_diff_nat [of e "e + 53"] by simp
  finally have "L < e + 53"
    by (simp add: pow2_less_iff)
  then have Ee: "E \<le> e"
    using assms(2) by (simp add: E_def)
  have "a / pow2 E = of_int (\<bar>m\<bar> * 2 ^ nat (e - E))"
    using pow2_diff_nat [OF Ee] pow2_pos [of E] by (simp add: a)
  then have r: "roundHalfEven (a / pow2 E) = \<bar>m\<bar> * 2 ^ nat (e - E)"
    by (simp only: roundHalfEven_of_int)
  have "of_int (roundHalfEven (a / pow2 E)) * pow2 E
          = of_int \<bar>m\<bar> * (of_int (2 ^ nat (e - E)) * pow2 E)"
    by (simp only: r of_int_mult mult.assoc)
  also have "\<dots> = a"
    by (simp only: pow2_diff_nat [OF Ee, symmetric] a)
  finally have v: "of_int (roundHalfEven (a / pow2 E)) * pow2 E = a" .
  have "a < of_int (2 ^ 53) * pow2 e"
    unfolding a using assms(1) pow2_pos [of e] by (simp only: mult_less_cancel_right_pos of_int_less_iff)
  also have "\<dots> = pow2 (e + 53)"
    using pow2_diff_nat [of e "e + 53"] by simp
  also have "\<dots> \<le> pow2 1024"
    by (rule pow2_mono) (use assms(3) in simp)
  finally have small: "\<not> pow2 1024 \<le> a"
    by simp
  have x0: "x \<noteq> 0"
    using apos by (simp add: a_def)
  have "fl x = Fin (if 0 < x then a else - a)"
    using x0 small v
    by (simp add: fl_def Let_def a_def [symmetric] L_def [symmetric] E_def [symmetric])
  also have "(if 0 < x then a else - a) = x"
    by (simp add: a_def)
  finally show ?thesis
    by (simp add: x_def)
qed

lemma is_double_grid:
  "\<bar>m\<bar> < 2 ^ 53 \<Longrightarrow> - 1074 \<le> e \<Longrightarrow> e \<le> 971 \<Longrightarrow> is_double (Fin (of_int m * pow2 e))"
  by (simp add: is_double_def fl_exact)

lemma fl_of_int: "\<bar>n\<bar> < 2 ^ 53 \<Longrightarrow> fl (of_int n) = Fin (of_int n)"
  using fl_exact [of n 0] by (simp add: pow2_def)

text \<open>Rounding a result of \<open>fl\<close> again changes nothing: every result is a double.\<close>

lemma fl_idem:
  assumes "fl x = Fin y"
  shows "fl y = Fin y"
proof (cases "x = 0")
  case True
  with assms show ?thesis by (simp add: fl_def)
next
  case False
  define L where "L = ilog2 \<bar>x\<bar>"
  define E where "E = max L (- 1022) - 52"
  obtain m :: int where m: "0 \<le> m" "m \<le> 2 ^ 53" "- 1022 \<le> L \<Longrightarrow> 2 ^ 52 \<le> m"
    "y = (if 0 < x then of_int m * pow2 E else - (of_int m * pow2 E))"
    "of_int m * pow2 E < pow2 1024"
    using fl_finite [OF assms False] unfolding L_def E_def by metis
  have El: "- 1074 \<le> E"
    by (simp add: E_def)
  have grid: "fl (of_int k * pow2 E) = Fin (of_int k * pow2 E)" if "\<bar>k\<bar> = m" for k
  proof (cases "m < 2 ^ 53")
    case True
    have "E \<le> 971"
    proof (rule ccontr)
      assume "\<not> E \<le> 971"
      then have L: "1024 \<le> L" and EL: "E = L - 52"
        by (simp_all add: E_def max_def split: if_splits)
      then have "2 ^ 52 \<le> m"
        using m(3) by simp
      then have "(of_int (2 ^ 52) :: rat) \<le> of_int m"
        by (simp only: of_int_le_iff)
      then have "of_int (2 ^ 52) * pow2 E \<le> of_int m * pow2 E"
        using pow2_pos [of E] by (simp only: mult_le_cancel_right_pos)
      moreover have "of_int (2 ^ 52) * pow2 E = pow2 L"
        unfolding EL using pow2_diff_nat [of "L - 52" L] by simp
      moreover have "pow2 1024 \<le> pow2 L"
        using L by (rule pow2_mono)
      ultimately show False
        using m(5) by simp
    qed
    with True that El show ?thesis
      by (intro fl_exact) simp_all
  next
    case False
    with m(2) have m53: "m = 2 ^ 53" by simp
    have "pow2 (E + 53) = of_int m * pow2 E"
      unfolding m53 using pow2_diff_nat [of E "E + 53"] by simp
    also have "\<dots> < pow2 1024"
      by (rule m(5))
    finally have E53: "E + 53 < 1024"
      by (simp add: pow2_less_iff)
    have k: "k = 2 ^ 53 \<or> k = - (2 ^ 53)"
      using that m53 by (auto simp: abs_if split: if_splits)
    have "of_int k * pow2 E = of_int (k div 2) * pow2 (E + 1)"
    proof -
      have "pow2 (E + 1) = 2 * pow2 E"
        using pow2_diff_nat [of E "E + 1"] by simp
      moreover have "(of_int k :: rat) = of_int (k div 2) * 2"
        using k by auto
      ultimately show ?thesis by simp
    qed
    moreover have "fl (of_int (k div 2) * pow2 (E + 1)) = Fin (of_int (k div 2) * pow2 (E + 1))"
      using k El E53 by (intro fl_exact) auto
    ultimately show ?thesis by simp
  qed
  show ?thesis
  proof (cases "0 < x")
    case True
    with m(4) grid [of m] m(1) show ?thesis by simp
  next
    case False
    with m(4) have "y = of_int (- m) * pow2 E" by simp
    with grid [of "- m"] m(1) show ?thesis by simp
  qed
qed

lemma is_double_fl: "is_double (fl x)"
  by (cases "fl x") (simp_all add: is_double_def fl_idem)

lemma fl_not_NaN: "fl x \<noteq> NaN"
  by (simp add: fl_def Let_def)

text \<open>The value of a measurement is a double, and not NaN.\<close>

lemma value1_double: "is_double (value1 r)"
  by (simp add: value1_def is_double_fl)

lemma value1_not_NaN: "value1 r \<noteq> NaN"
  by (simp add: value1_def fl_not_NaN)

lemma fl_0: "fl 0 = 0"
  by (simp add: fl_def zero_number_def)

lemma fl_uminus: "fl (- x) = - fl x"
  by (cases "x = 0"; cases "0 < x")
    (auto simp: fl_def uminus_number_def num_neg_def Let_def)

lemma zero_minus_zero: "(0::number) - 0 = 0"
  by (simp add: minus_number_def num_neg_def num_add_def zero_number_def fl_def)

lemma zero_plus_double: "is_double a \<Longrightarrow> 0 + a = a"
  by (cases a) (simp_all add: is_double_def plus_number_def num_add_def zero_number_def)

lemma double_div_1: "is_double a \<Longrightarrow> divide_by a 1 = a"
  by (cases a) (simp_all add: is_double_def divide_by_def)

subsection \<open>Rounding to one decimal place\<close>

text \<open>\<open>tenths x\<close> is the integer \<open>n\<close> that \<^verbatim>\<open>toFixed(1)\<close> prints as \<open>n / 10\<close>: it is
  within 0.05 of \<open>x\<close>, and on a tie it is the larger one. \<open>toFixed1\<close> returns the double
  nearest to that decimal.\<close>

lemma tenths_nearest: "\<bar>of_int (tenths x) / 10 - x\<bar> \<le> 1 / 20"
proof -
  define f :: rat where "f = of_int \<lfloor>x * 10 + 1 / 2\<rfloor>"
  have l: "f \<le> x * 10 + 1 / 2"
    unfolding f_def by (rule of_int_floor_le)
  have u: "x * 10 + 1 / 2 < f + 1"
    unfolding f_def using floor_correct [of "x * 10 + 1 / 2"] by simp
  have "\<bar>f / 10 - x\<bar> \<le> 1 / 20"
    using l u by linarith
  then show ?thesis
    by (simp only: f_def tenths_def)
qed

lemma tenths_tie: "tenths (of_int k / 10 + 1 / 20) = k + 1"
proof -
  have "(of_int k / 10 + 1 / 20) * 10 + 1 / 2 = (of_int (k + 1) :: rat)"
    by simp
  then show ?thesis
    unfolding tenths_def by (simp only: floor_of_int)
qed

lemma toFixed1_0: "toFixed1 0 = 0"
  by (simp add: toFixed1_def zero_number_def tenths_def floor_eq_iff fl_def)

lemma toFixed1_one_decimal:
  assumes "\<bar>x\<bar> < 10 ^ 21"
  shows "\<exists>n::int. toFixed1 (Fin x) = fl (of_int n / 10) \<and> \<bar>of_int n / 10 - x\<bar> \<le> 1 / 20"
proof (cases "x < 0")
  case True
  have "toFixed1 (Fin x) = fl (of_int (- tenths (- x)) / 10)"
    using assms True by (simp add: toFixed1_def fl_uminus [symmetric])
  moreover have "\<bar>of_int (- tenths (- x)) / 10 - x\<bar> \<le> 1 / 20"
  proof -
    have "\<bar>of_int (- tenths (- x)) / 10 - x\<bar> = \<bar>of_int (tenths (- x)) / 10 - (- x)\<bar>"
      by (simp add: abs_minus_commute)
    then show ?thesis
      using tenths_nearest [of "- x"] by (simp only:)
  qed
  ultimately show ?thesis by blast
next
  case False
  have "toFixed1 (Fin x) = fl (of_int (tenths x) / 10)"
    using assms False by (simp add: toFixed1_def)
  with tenths_nearest [of x] show ?thesis by blast
qed

section \<open>Facts about calculateStats\<close>

lemma updateMetric_other: "m \<noteq> metric \<Longrightarrow> updateMetric data metric st m = st m"
  by (simp add: updateMetric_def split: list.splits)

lemma updateMetric_same:
  "updateMetric data m st m =
     (case metricRecords m data of [] \<Rightarrow> st m | r0 # rest \<Rightarrow> metricSummary m r0 rest)"
  by (simp add: updateMetric_def split: list.splits)

lemma calculateStats_at:
  "calculateStats st data m =
     (case metricRecords m data of [] \<Rightarrow> st m | r0 # rest \<Rightarrow> metricSummary m r0 rest)"
  by (cases m)
    (auto simp: calculateStats_def METRIC_TYPES_def updateMetric_other updateMetric_same
          split: list.splits)

text \<open>For a metric without matching records \<^verbatim>\<open>calculateStats\<close> hands on the entry of
  the \<^verbatim>\<open>stats\<close> it read; for a metric with matching records the entry is computed from
  those records alone.\<close>

lemma calculateStats_unmatched:
  "metricRecords m data = [] \<Longrightarrow> calculateStats st data m = st m"
  by (simp add: calculateStats_at)

lemma calculateStats_matched:
  "metricRecords m data = r0 # rest \<Longrightarrow> calculateStats st data m = metricSummary m r0 rest"
  by (simp add: calculateStats_at)

text \<open>In every state of a mounted component the \<^verbatim>\<open>stats\<close> that \<^verbatim>\<open>loadData\<close> reads is
  the initial one.\<close>

lemma reachable_loadData_stats: "reachable s \<Longrightarrow> loadData_stats s = initialStats"
  by (induction rule: reachable.induct)
    (simp_all add: mount_def loadData_def setSelectedMetric_def setTimeRange_def render_def
       useCallback_def)

lemma stats_loadData: "stats (loadData data s) = calculateStats (loadData_stats s) data"
  by (simp add: loadData_def render_def)

section \<open>The summary of a metric\<close>

text \<open>
  In the theorems of this section the summary of a metric \<open>m\<close> for a collection \<open>data\<close>
  is \<open>stats (loadData data s) m\<close>: what the component holds for \<open>m\<close> after a load
  that returned \<open>data\<close>. \<open>metricRecords m data\<close> are the matching measurements, in
  source order. \<open>-\<close>, \<open><\<close> and \<open>>\<close> on numbers are the operations of doubles.
\<close>

text \<open>
  Claim C1, as amended. For a metric with at least two matching measurements the trend is
  decided on the difference \<open>last - first\<close> of the last and first matching values as
  the code computes it (a double), before it is rounded to one decimal place: above the
  metric's threshold the trend is \<open>up\<close>, below minus the threshold it is \<open>down\<close>, and
  otherwise, on the closed interval in between, it is \<open>stable\<close>. The returned change is
  that difference rounded to one decimal place. The thresholds are 0.5 for weight, 5 for
  heartRate, 500 for steps, 0.5 for sleep and 1 for water.
\<close>

theorem trend_by_unrounded_difference:
  assumes "2 \<le> length (metricRecords m data)"
  shows "trend (stats (loadData data s) m) =
           (if value1 (last (metricRecords m data)) - value1 (hd (metricRecords m data)) > threshold m then up
            else if value1 (last (metricRecords m data)) - value1 (hd (metricRecords m data)) < - threshold m then down
            else stable)
       \<and> change (stats (loadData data s) m) =
           toFixed1 (value1 (last (metricRecords m data)) - value1 (hd (metricRecords m data)))
       \<and> map threshold METRIC_TYPES = [Fin (1 / 2), Fin 5, Fin 500, Fin (1 / 2), Fin 1]"
proof -
  obtain r0 r1 rest where ms: "metricRecords m data = r0 # r1 # rest"
    using assms by (cases "metricRecords m data" rule: list.exhaust; cases "tl (metricRecords m data)") auto
  show ?thesis
    by (simp add: stats_loadData calculateStats_matched [OF ms] ms metricSummary_def
        METRIC_TYPES_def Let_def)
qed

text \<open>The steps scenario of the specification: 3000 then 3100 steps, change 100, stable.\<close>

theorem trend_by_unrounded_difference_witness:
  "2 \<le> length (metricRecords steps
       [\<lparr> metric_type = ''steps'', value1_json = 3000, logged_at = Missing \<rparr>,
        \<lparr> metric_type = ''steps'', value1_json = 3100, logged_at = Missing \<rparr>])
   \<and> trend (stats (loadData
       [\<lparr> metric_type = ''steps'', value1_json = 3000, logged_at = Missing \<rparr>,
        \<lparr> metric_type = ''steps'', value1_json = 3100, logged_at = Missing \<rparr>] mount) steps) = stable
   \<and> change (stats (loadData
       [\<lparr> metric_type = ''steps'', value1_json = 3000, logged_at = Missing \<rparr>,
        \<lparr> metric_type = ''steps'', value1_json = 3100, logged_at = Missing \<rparr>] mount) steps) = Fin 100"
proof -
  have h: "2 \<le> length (metricRecords steps
       [\<lparr> metric_type = ''steps'', value1_json = 3000, logged_at = Missing \<rparr>,
        \<lparr> metric_type = ''steps'', value1_json = 3100, logged_at = Missing \<rparr>])"
    by (simp add: metricRecords_def)
  have t: "trend (stats (loadData
       [\<lparr> metric_type = ''steps'', value1_json = 3000, logged_at = Missing \<rparr>,
        \<lparr> metric_type = ''steps'', value1_json = 3100, logged_at = Missing \<rparr>] mount) steps) = stable"
    by code_simp
  have c: "change (stats (loadData
       [\<lparr> metric_type = ''steps'', value1_json = 3000, logged_at = Missing \<rparr>,
        \<lparr> metric_type = ''steps'', value1_json = 3100, logged_at = Missing \<rparr>] mount) steps) = Fin 100"
    by code_simp
  show ?thesis
    using h t c trend_by_unrounded_difference [OF h, of mount]
    by (simp only: simp_thms)
qed

text \<open>
  Claim C1 as stated fails: for weights 70 and 70.53125 the returned change is 0.5, which
  is not above the threshold 0.5, and the trend is \<open>up\<close> (the difference 0.53125 is
  above it).
\<close>

theorem trend_of_returned_change_counterexample:
  "change (stats (loadData
       [\<lparr> metric_type = ''weight'', value1_json = 70, logged_at = Missing \<rparr>,
        \<lparr> metric_type = ''weight'', value1_json = 2257 / 32, logged_at = Missing \<rparr>] mount) weight)
     = Fin (1 / 2)
   \<and> \<not> (change (stats (loadData
       [\<lparr> metric_type = ''weight'', value1_json = 70, logged_at = Missing \<rparr>,
        \<lparr> metric_type = ''weight'', value1_json = 2257 / 32, logged_at = Missing \<rparr>] mount) weight)
         > threshold weight)
   \<and> trend (stats (loadData
       [\<lparr> metric_type = ''weight'', value1_json = 70, logged_at = Missing \<rparr>,
        \<lparr> metric_type = ''weight'', value1_json = 2257 / 32, logged_at = Missing \<rparr>] mount) weight) = up"
  by code_simp

text \<open>
  Claim C2. For every collection and metric the returned change is the value of the last
  matching measurement minus the value of the first one, in source order, rounded to one
  decimal place; with fewer than two matching measurements the change is 0 and the trend
  is \<open>none\<close>. The subtraction is that of doubles and the rounding is
  \<^verbatim>\<open>parseFloat(x.toFixed(1))\<close> of its result.
\<close>

theorem change_last_minus_first:
  assumes "reachable s"
  shows "change (stats (loadData data s) m) =
           (if 2 \<le> length (metricRecords m data)
            then toFixed1 (value1 (last (metricRecords m data)) - value1 (hd (metricRecords m data)))
            else 0)
       \<and> (length (metricRecords m data) < 2 \<longrightarrow> trend (stats (loadData data s) m) = none)"
proof (cases "metricRecords m data")
  case Nil
  then show ?thesis
    using assms
    by (simp add: stats_loadData reachable_loadData_stats calculateStats_unmatched initialStats_def)
next
  case (Cons r0 rest)
  then show ?thesis
    by (cases rest)
      (simp_all add: stats_loadData calculateStats_matched [OF Cons] metricSummary_def toFixed1_0 Let_def)
qed

text \<open>Sleep of 1.05 then 3.1 hours, loaded after an earlier load: the difference of the
  two doubles is 2.0499999999999998 and the change is 2.0. The same collection holds a
  single steps measurement.\<close>

theorem change_last_minus_first_witness:
  "reachable (loadData [\<lparr> metric_type = ''steps'', value1_json = 9, logged_at = Missing \<rparr>] mount)
   \<and> change (stats (loadData
       [\<lparr> metric_type = ''sleep'', value1_json = 21 / 20, logged_at = Missing \<rparr>,
        \<lparr> metric_type = ''steps'', value1_json = 3000, logged_at = Missing \<rparr>,
        \<lparr> metric_type = ''sleep'', value1_json = 31 / 10, logged_at = Missing \<rparr>]
       (loadData [\<lparr> metric_type = ''steps'', value1_json = 9, logged_at = Missing \<rparr>] mount)) sleep) = Fin 2
   \<and> change (stats (loadData
       [\<lparr> metric_type = ''sleep'', value1_json = 21 / 20, logged_at = Missing \<rparr>,
        \<lparr> metric_type = ''steps'', value1_json = 3000, logged_at = Missing \<rparr>,
        \<lparr> metric_type = ''sleep'', value1_json = 31 / 10, logged_at = Missing \<rparr>]
       (loadData [\<lparr> metric_type = ''steps'', value1_json = 9, logged_at = Missing \<rparr>] mount)) steps) = 0
   \<and> trend (stats (loadData
       [\<lparr> metric_type = ''sleep'', value1_json = 21 / 20, logged_at = Missing \<rparr>,
        \<lparr> metric_type = ''steps'', value1_json = 3000, logged_at = Missing \<rparr>,
        \<lparr> metric_type = ''sleep'', value1_json = 31 / 10, logged_at = Missing \<rparr>]
       (loadData [\<lparr> metric_type = ''steps'', value1_json = 9, logged_at = Missing \<rparr>] mount)) steps) = none"
proof -
  have h: "reachable (loadData [\<lparr> metric_type = ''steps'', value1_json = 9, logged_at = Missing \<rparr>] mount)"
    by (rule r_load [OF r_mount])
  have a: "change (stats (loadData
       [\<lparr> metric_type = ''sleep'', value1_json = 21 / 20, logged_at = Missing \<rparr>,
        \<lparr> metric_type = ''steps'', value1_json = 3000, logged_at = Missing \<rparr>,
        \<lparr> metric_type = ''sleep'', value1_json = 31 / 10, logged_at = Missing \<rparr>]
       (loadData [\<lparr> metric_type = ''steps'', value1_json = 9, logged_at = Missing \<rparr>] mount)) sleep) = Fin 2"
    by code_simp
  have b: "change (stats (loadData
       [\<lparr> metric_type = ''sleep'', value1_json = 21 / 20, logged_at = Missing \<rparr>,
        \<lparr> metric_type = ''steps'', value1_json = 3000, logged_at = Missing \<rparr>,
        \<lparr> metric_type = ''sleep'', value1_json = 31 / 10, logged_at = Missing \<rparr>]
       (loadData [\<lparr> metric_type = ''steps'', value1_json = 9, logged_at = Missing \<rparr>] mount)) steps) = 0"
    by code_simp
  have c: "trend (stats (loadData
       [\<lparr> metric_type = ''sleep'', value1_json = 21 / 20, logged_at = Missing \<rparr>,
        \<lparr> metric_type = ''steps'', value1_json = 3000, logged_at = Missing \<rparr>,
        \<lparr> metric_type = ''sleep'', value1_json = 31 / 10, logged_at = Missing \<rparr>]
       (loadData [\<lparr> metric_type = ''steps'', value1_json = 9, logged_at = Missing \<rparr>] mount)) steps) = none"
    by code_simp
  show ?thesis
    using h a b c change_last_minus_first [OF h, of
       "[\<lparr> metric_type = ''sleep'', value1_json = 21 / 20, logged_at = Missing \<rparr>,
        \<lparr> metric_type = ''steps'', value1_json = 3000, logged_at = Missing \<rparr>,
        \<lparr> metric_type = ''sleep'', value1_json = 31 / 10, logged_at = Missing \<rparr>]" sleep]
    by (simp only: simp_thms)
qed

text \<open>
  Claim C3. For a metric with no matching measurement in the collection, the summary has
  no current, average, minimum or maximum, its trend is \<open>none\<close> and its change is 0.
\<close>

theorem no_matching_records_summary:
  assumes "reachable s" and "metricRecords m data = []"
  shows "stats (loadData data s) m =
           \<lparr> current = None, avg = None, min_stat = None, max_stat = None, trend = none, change = 0 \<rparr>"
  using assms
  by (simp add: stats_loadData reachable_loadData_stats calculateStats_unmatched initialStats_def)

text \<open>A heart-rate summary that an earlier load had filled is empty again after a load
  without heart-rate measurements.\<close>

theorem no_matching_records_summary_witness:
  "reachable (loadData [\<lparr> metric_type = ''heartRate'', value1_json = 61, logged_at = Missing \<rparr>] mount)
   \<and> metricRecords heartRate [\<lparr> metric_type = ''weight'', value1_json = 70, logged_at = Missing \<rparr>] = []
   \<and> stats (loadData [\<lparr> metric_type = ''heartRate'', value1_json = 61, logged_at = Missing \<rparr>] mount) heartRate
       = \<lparr> current = Some (Fin 61), avg = Some (Fin 61), min_stat = Some (Fin 61),
           max_stat = Some (Fin 61), trend = none, change = 0 \<rparr>
   \<and> stats (loadData [\<lparr> metric_type = ''weight'', value1_json = 70, logged_at = Missing \<rparr>]
        (loadData [\<lparr> metric_type = ''heartRate'', value1_json = 61, logged_at = Missing \<rparr>] mount)) heartRate
       = \<lparr> current = None, avg = None, min_stat = None, max_stat = None, trend = none, change = 0 \<rparr>"
proof -
  have h: "reachable (loadData [\<lparr> metric_type = ''heartRate'', value1_json = 61, logged_at = Missing \<rparr>] mount)"
    by (rule r_load [OF r_mount])
  have e: "metricRecords heartRate [\<lparr> metric_type = ''weight'', value1_json = 70, logged_at = Missing \<rparr>] = []"
    by (simp add: metricRecords_def)
  have p: "stats (loadData [\<lparr> metric_type = ''heartRate'', value1_json = 61, logged_at = Missing \<rparr>] mount) heartRate
       = \<lparr> current = Some (Fin 61), avg = Some (Fin 61), min_stat = Some (Fin 61),
           max_stat = Some (Fin 61), trend = none, change = 0 \<rparr>"
    by code_simp
  show ?thesis
    using h e p no_matching_records_summary [OF h e] by (simp only: simp_thms)
qed

text \<open>
  Claim C4, as amended. For a metric with exactly one matching measurement, of value
  \<open>v\<close>: average, minimum and maximum are all \<open>v\<close> rounded to one decimal place,
  current is \<open>v\<close> itself (absent when \<open>v\<close> is 0), the trend is \<open>none\<close> and the
  change is 0.
\<close>

theorem single_record_summary:
  assumes "metricRecords m data = [r]"
  shows "stats (loadData data s) m =
           \<lparr> current = (if value1 r = 0 then None else Some (value1 r)),
             avg = Some (toFixed1 (value1 r)),
             min_stat = Some (toFixed1 (value1 r)),
             max_stat = Some (toFixed1 (value1 r)),
             trend = none, change = 0 \<rparr>"
  by (simp add: stats_loadData calculateStats_matched [OF assms] metricSummary_def toFixed1_0
      zero_plus_double [OF value1_double] double_div_1 [OF value1_double, simplified]
      or_null_def value1_not_NaN Let_def)

text \<open>A single sleep measurement of 7.5 hours.\<close>

theorem single_record_summary_witness:
  "metricRecords sleep [\<lparr> metric_type = ''sleep'', value1_json = 15 / 2, logged_at = Unparsable \<rparr>,
                        \<lparr> metric_type = ''water'', value1_json = 3, logged_at = Missing \<rparr>]
     = [\<lparr> metric_type = ''sleep'', value1_json = 15 / 2, logged_at = Unparsable \<rparr>]
   \<and> stats (loadData [\<lparr> metric_type = ''sleep'', value1_json = 15 / 2, logged_at = Unparsable \<rparr>,
                        \<lparr> metric_type = ''water'', value1_json = 3, logged_at = Missing \<rparr>] mount) sleep
     = \<lparr> current = Some (Fin (15 / 2)), avg = Some (Fin (15 / 2)), min_stat = Some (Fin (15 / 2)),
         max_stat = Some (Fin (15 / 2)), trend = none, change = 0 \<rparr>"
proof -
  have e: "metricRecords sleep [\<lparr> metric_type = ''sleep'', value1_json = 15 / 2, logged_at = Unparsable \<rparr>,
                        \<lparr> metric_type = ''water'', value1_json = 3, logged_at = Missing \<rparr>]
     = [\<lparr> metric_type = ''sleep'', value1_json = 15 / 2, logged_at = Unparsable \<rparr>]"
    by (simp add: metricRecords_def)
  have p: "stats (loadData [\<lparr> metric_type = ''sleep'', value1_json = 15 / 2, logged_at = Unparsable \<rparr>,
                        \<lparr> metric_type = ''water'', value1_json = 3, logged_at = Missing \<rparr>] mount) sleep
     = \<lparr> current = Some (Fin (15 / 2)), avg = Some (Fin (15 / 2)), min_stat = Some (Fin (15 / 2)),
         max_stat = Some (Fin (15 / 2)), trend = none, change = 0 \<rparr>"
    by code_simp
  show ?thesis
    using e p single_record_summary [OF e, of mount] by (simp only: simp_thms)
qed

text \<open>
  Claim C4 as stated fails: for the single weight 70.25 the current value is 70.25 and the
  average is the double 70.3.
\<close>

theorem single_record_summary_counterexample:
  "metricRecords weight [\<lparr> metric_type = ''weight'', value1_json = 281 / 4, logged_at = Missing \<rparr>]
     = [\<lparr> metric_type = ''weight'', value1_json = 281 / 4, logged_at = Missing \<rparr>]
   \<and> current (stats (loadData [\<lparr> metric_type = ''weight'', value1_json = 281 / 4, logged_at = Missing \<rparr>] mount) weight)
     = Some (Fin (281 / 4))
   \<and> avg (stats (loadData [\<lparr> metric_type = ''weight'', value1_json = 281 / 4, logged_at = Missing \<rparr>] mount) weight)
     = Some (fl (703 / 10))
   \<and> avg (stats (loadData [\<lparr> metric_type = ''weight'', value1_json = 281 / 4, logged_at = Missing \<rparr>] mount) weight)
     \<noteq> current (stats (loadData [\<lparr> metric_type = ''weight'', value1_json = 281 / 4, logged_at = Missing \<rparr>] mount) weight)"
  by code_simp

text \<open>
  Claim C9. The summaries produced by a load are a function of the loaded collection
  alone: from any two states of the component, whatever summaries they hold, loading the
  same collection gives the same summary for every metric, also for a metric without
  matching measurements in that collection.
\<close>

theorem summary_independent_of_prior_state:
  assumes "reachable s1" and "reachable s2"
  shows "stats (loadData data s1) = stats (loadData data s2)"
  using assms by (simp add: stats_loadData reachable_loadData_stats)

text \<open>The fresh component and a component whose heart-rate summary is filled hold
  different summaries; after loading the same weight-only collection they hold the same
  ones.\<close>

theorem summary_independent_of_prior_state_witness:
  "reachable mount
   \<and> reachable (loadData [\<lparr> metric_type = ''heartRate'', value1_json = 61, logged_at = Missing \<rparr>] mount)
   \<and> stats mount heartRate
       \<noteq> stats (loadData [\<lparr> metric_type = ''heartRate'', value1_json = 61, logged_at = Missing \<rparr>] mount) heartRate
   \<and> stats (loadData [\<lparr> metric_type = ''weight'', value1_json = 70, logged_at = Missing \<rparr>] mount)
       = stats (loadData [\<lparr> metric_type = ''weight'', value1_json = 70, logged_at = Missing \<rparr>]
           (loadData [\<lparr> metric_type = ''heartRate'', value1_json = 61, logged_at = Missing \<rparr>] mount))"
proof -
  have h1: "reachable mount"
    by (rule r_mount)
  have h2: "reachable (loadData [\<lparr> metric_type = ''heartRate'', value1_json = 61, logged_at = Missing \<rparr>] mount)"
    by (rule r_load [OF r_mount])
  have d: "stats mount heartRate
       \<noteq> stats (loadData [\<lparr> metric_type = ''heartRate'', value1_json = 61, logged_at = Missing \<rparr>] mount) heartRate"
    by code_simp
  show ?thesis
    using h1 h2 d summary_independent_of_prior_state [OF h1 h2] by (simp only: simp_thms)
qed

text \<open>
  Claim C10. When matching measurements exist and the last of them, in source order, has
  value 0, the summary's current value is absent.
\<close>

theorem zero_current_is_null:
  assumes "metricRecords m data \<noteq> []" and "value1 (last (metricRecords m data)) = 0"
  shows "current (stats (loadData data s) m) = None"
proof -
  obtain r0 rest where ms: "metricRecords m data = r0 # rest"
    using assms(1) by (cases "metricRecords m data") auto
  show ?thesis
    using assms(2)
    by (simp add: stats_loadData calculateStats_matched [OF ms] ms metricSummary_def or_null_def
        Let_def)
qed

text \<open>Two water measurements, 3 then 0: no current value, although the maximum is 3.\<close>

theorem zero_current_is_null_witness:
  "metricRecords water [\<lparr> metric_type = ''water'', value1_json = 3, logged_at = Missing \<rparr>,
                        \<lparr> metric_type = ''water'', value1_json = 0, logged_at = Missing \<rparr>] \<noteq> []
   \<and> value1 (last (metricRecords water [\<lparr> metric_type = ''water'', value1_json = 3, logged_at = Missing \<rparr>,
                        \<lparr> metric_type = ''water'', value1_json = 0, logged_at = Missing \<rparr>])) = 0
   \<and> current (stats (loadData [\<lparr> metric_type = ''water'', value1_json = 3, logged_at = Missing \<rparr>,
                        \<lparr> metric_type = ''water'', value1_json = 0, logged_at = Missing \<rparr>] mount) water) = None
   \<and> max_stat (stats (loadData [\<lparr> metric_type = ''water'', value1_json = 3, logged_at = Missing \<rparr>,
                        \<lparr> metric_type = ''water'', value1_json = 0, logged_at = Missing \<rparr>] mount) water) = Some (Fin 3)"
proof -
  have h1: "metricRecords water [\<lparr> metric_type = ''water'', value1_json = 3, logged_at = Missing \<rparr>,
                        \<lparr> metric_type = ''water'', value1_json = 0, logged_at = Missing \<rparr>] \<noteq> []"
    by (simp add: metricRecords_def)
  have h2: "value1 (last (metricRecords water [\<lparr> metric_type = ''water'', value1_json = 3, logged_at = Missing \<rparr>,
                        \<lparr> metric_type = ''water'', value1_json = 0, logged_at = Missing \<rparr>])) = 0"
    by (simp add: metricRecords_def value1_def fl_0)
  have m: "max_stat (stats (loadData [\<lparr> metric_type = ''water'', value1_json = 3, logged_at = Missing \<rparr>,
                        \<lparr> metric_type = ''water'', value1_json = 0, logged_at = Missing \<rparr>] mount) water) = Some (Fin 3)"
    by code_simp
  show ?thesis
    using h1 h2 m zero_current_is_null [OF h1 h2, of mount] by (simp only: simp_thms)
qed

section \<open>The chart series\<close>

text \<open>
  The filter of \<^verbatim>\<open>getChartData\<close> keeps the records of the selected metric whose
  \<^verbatim>\<open>logged_at\<close> parses to an instant at or after \<^verbatim>\<open>subDays(new Date(), daysToShow)\<close>.
\<close>

lemma inWindow_iff:
  "inWindow lib now trange metric r \<longleftrightarrow>
     metric_type r = metric_name metric
     \<and> (\<exists>t. logged_at r = ISO t \<and> subDays lib now (daysToShow trange) \<le> t)"
  by (cases "logged_at r") (auto simp: inWindow_def date_ge_def)

lemma inWindow_case:
  "inWindow lib now trange metric =
     (\<lambda>r. metric_type r = metric_name metric
          \<and> (case logged_at r of ISO t \<Rightarrow> subDays lib now (daysToShow trange) \<le> t | _ \<Rightarrow> False))"
  by (rule ext) (simp add: inWindow_iff split: timestamp.splits)

lemma getTime_case: "getTime = (\<lambda>r. case logged_at r of ISO t \<Rightarrow> t | _ \<Rightarrow> 0)"
  by (rule ext) (simp add: getTime_def split: timestamp.splits)

lemma set_selectedRecords:
  "set (selectedRecords lib now trange metric rs) = {r \<in> set rs. inWindow lib now trange metric r}"
  by (simp add: selectedRecords_def)

lemma selectedRecords_valid:
  "r \<in> set (selectedRecords lib now trange metric rs) \<Longrightarrow> \<exists>t. logged_at r = ISO t"
  by (auto simp: set_selectedRecords inWindow_iff)

lemma selectedRecords_explicit:
  "selectedRecords lib now trange metric rs =
     sort_key (\<lambda>r. case logged_at r of ISO t \<Rightarrow> t | _ \<Rightarrow> 0)
       (filter (\<lambda>r. metric_type r = metric_name metric
                  \<and> (case logged_at r of ISO t \<Rightarrow> subDays lib now (daysToShow trange) \<le> t
                      | _ \<Rightarrow> False)) rs)"
  by (simp only: selectedRecords_def inWindow_case getTime_case)

lemma format_valid:
  "logged_at r = ISO t \<Longrightarrow>
   format lib (parseISO (logged_at r)) p = Inr (formatValid lib (getTime r) p)"
  by (simp add: format_def getTime_def)

lemma groupRecords_valid:
  "(\<And>r. r \<in> set rs \<Longrightarrow> \<exists>t. logged_at r = ISO t) \<Longrightarrow>
   groupRecords lib rs g =
     Inr (fold (\<lambda>r. addToGroup (formatValid lib (getTime r) ''MM/dd'') (value1 r)) rs g)"
proof (induction rs arbitrary: g)
  case Nil
  show ?case by simp
next
  case (Cons r rs)
  from Cons.prems [of r] obtain t where t: "logged_at r = ISO t" by auto
  have "groupRecords lib rs (addToGroup (formatValid lib (getTime r) ''MM/dd'') (value1 r) g)
        = Inr (fold (\<lambda>r. addToGroup (formatValid lib (getTime r) ''MM/dd'') (value1 r)) rs
                (addToGroup (formatValid lib (getTime r) ''MM/dd'') (value1 r) g))"
    by (rule Cons.IH) (simp add: Cons.prems)
  then show ?case
    by (simp add: format_valid [OF t])
qed

text \<open>\<^verbatim>\<open>groupedData\<close> after the \<^verbatim>\<open>forEach\<close>: its keys, and the sum and count under
  each key. The sum of a day is built from 0 by adding the day's values in the order of
  the sorted records.\<close>

lemma map_of_addToGroup:
  "map_of (addToGroup k v g) k' =
     (if k' = k then Some (case map_of g k of None \<Rightarrow> (0 + v, 1) | Some (s, c) \<Rightarrow> (s + v, c + 1))
      else map_of g k')"
  by (induction g) auto

lemma keys_addToGroup_list:
  "map fst (addToGroup k v g) = (if k \<in> set (map fst g) then map fst g else map fst g @ [k])"
  by (induction k v g rule: addToGroup.induct) auto

lemma keys_addToGroup: "set (map fst (addToGroup k v g)) = insert k (set (map fst g))"
  by (simp add: keys_addToGroup_list insert_absorb)

lemma distinct_addToGroup: "distinct (map fst g) \<Longrightarrow> distinct (map fst (addToGroup k v g))"
  by (simp add: keys_addToGroup_list)

lemma keys_fold_group:
  "set (map fst (fold (\<lambda>r. addToGroup (f r) (value1 r)) rs g)) = f ` set rs \<union> set (map fst g)"
proof (induction rs arbitrary: g)
  case Nil
  show ?case by simp
next
  case (Cons r rs)
  have "set (map fst (fold (\<lambda>r. addToGroup (f r) (value1 r)) rs (addToGroup (f r) (value1 r) g)))
        = f ` set rs \<union> set (map fst (addToGroup (f r) (value1 r) g))"
    by (rule Cons.IH)
  then show ?case
    by (simp add: keys_addToGroup del: set_map)
qed

lemma distinct_fold_group:
  "distinct (map fst g) \<Longrightarrow> distinct (map fst (fold (\<lambda>r. addToGroup (f r) (value1 r)) rs g))"
  by (induction rs arbitrary: g) (simp_all add: distinct_addToGroup)

lemma map_of_fold_group:
  "map_of (fold (\<lambda>r. addToGroup (f r) (value1 r)) rs g) k =
     (if filter (\<lambda>r. f r = k) rs = [] then map_of g k
      else Some (case map_of g k of
                   None \<Rightarrow> (foldl (\<lambda>a b. a + b) 0 (map value1 (filter (\<lambda>r. f r = k) rs)),
                             length (filter (\<lambda>r. f r = k) rs))
                 | Some (s, c) \<Rightarrow> (foldl (\<lambda>a b. a + b) s (map value1 (filter (\<lambda>r. f r = k) rs)),
                                  c + length (filter (\<lambda>r. f r = k) rs))))"
proof (induction rs arbitrary: g)
  case Nil
  show ?case by simp
next
  case (Cons r rs)
  show ?case
    by (simp add: Cons.IH map_of_addToGroup split: option.splits)
qed

lemma dayValues_ok:
  "(\<And>d. d \<in> set ds \<Longrightarrow> map_of g d = Some (s d, c d)) \<Longrightarrow>
   dayValues g ds = Inr (map (\<lambda>d. divide_by (s d) (c d)) ds)"
  by (induction ds) simp_all

lemma groupedData_of_selected:
  "groupRecords lib (selectedRecords lib now trange metric rs) [] =
     Inr (fold (\<lambda>r. addToGroup (formatValid lib (getTime r) ''MM/dd'') (value1 r))
            (selectedRecords lib now trange metric rs) [])"
  by (rule groupRecords_valid) (rule selectedRecords_valid)

text \<open>What \<^verbatim>\<open>getChartData\<close> returns, in closed form. It never throws: every record
  that reaches \<^verbatim>\<open>format\<close> has a valid date, and every label looked up in
  \<^verbatim>\<open>groupedData\<close> is one of its keys.\<close>

lemma getChartData_result:
  fixes lib now trange metric rs
  defines "sel \<equiv> selectedRecords lib now trange metric rs"
  defines "day \<equiv> \<lambda>r. formatValid lib (getTime r) ''MM/dd''"
  defines "dates \<equiv> sort (map fst (fold (\<lambda>r. addToGroup (day r) (value1 r)) sel []))"
  shows "getChartData lib now trange metric rs =
     Inr (if sel = [] then \<lparr> labels = [noDataLabel], datasets_data = [0] \<rparr>
          else \<lparr> labels = dates,
                 datasets_data =
                   map (\<lambda>d. divide_by (foldl (\<lambda>a b. a + b) 0 (map value1 (filter (\<lambda>r. day r = d) sel)))
                                       (length (filter (\<lambda>r. day r = d) sel))) dates \<rparr>)"
proof -
  define G where "G = fold (\<lambda>r. addToGroup (day r) (value1 r)) sel []"
  have keys: "set (map fst G) = day ` set sel"
    unfolding G_def by (simp add: keys_fold_group del: set_map)
  have entry: "map_of G d = Some (foldl (\<lambda>a b. a + b) 0 (map value1 (filter (\<lambda>r. day r = d) sel)),
                                 length (filter (\<lambda>r. day r = d) sel))"
    if "d \<in> set dates" for d
  proof -
    from that have "d \<in> day ` set sel"
      using keys by (simp add: dates_def G_def)
    then have "filter (\<lambda>r. day r = d) sel \<noteq> []"
      by (auto simp: filter_empty_conv)
    then show ?thesis
      unfolding G_def by (simp add: map_of_fold_group)
  qed
  have vals: "dayValues G dates =
      Inr (map (\<lambda>d. divide_by (foldl (\<lambda>a b. a + b) 0 (map value1 (filter (\<lambda>r. day r = d) sel)))
                              (length (filter (\<lambda>r. day r = d) sel))) dates)"
    by (rule dayValues_ok) (rule entry)
  have empty: "dates = [] \<longleftrightarrow> sel = []"
  proof -
    have "set dates = set (map fst G)"
      by (simp add: dates_def G_def)
    then have "dates = [] \<longleftrightarrow> set (map fst G) = {}"
      by (simp only: set_empty [symmetric])
    also have "\<dots> \<longleftrightarrow> sel = []"
      by (simp add: keys del: set_map)
    finally show ?thesis .
  qed
  have grp: "groupRecords lib sel [] = Inr G"
    unfolding sel_def G_def day_def by (rule groupedData_of_selected)
  have d: "sort (map fst G) = dates"
    by (simp add: dates_def G_def)
  show ?thesis
    using empty
    by (simp add: getChartData_def sel_def [symmetric] grp d vals Let_def)
qed

lemma getChartData_returns: "\<exists>cd. getChartData lib now trange metric rs = Inr cd"
  by (simp add: getChartData_result)

lemma labels_of_selected:
  "set (sort (map fst (fold (\<lambda>r. addToGroup (f r) (value1 r)) sel []))) = f ` set sel"
  by (simp add: keys_fold_group del: set_map)

lemma labels_distinct:
  "distinct (sort (map fst (fold (\<lambda>r. addToGroup (f r) (value1 r)) sel [])))"
  by (simp add: distinct_fold_group)

lemma selectedRecords_filter:
  assumes "\<And>r. inWindow lib now trange metric r \<Longrightarrow> P r"
  shows "selectedRecords lib now trange metric (filter P rs) = selectedRecords lib now trange metric rs"
proof -
  have "filter (inWindow lib now trange metric) (filter P rs) = filter (inWindow lib now trange metric) rs"
    using assms by (auto intro: filter_cong simp: filter_filter)
  then show ?thesis
    by (simp add: selectedRecords_def)
qed

lemma selectedRecords_excludes:
  "logged_at r = Missing \<or> logged_at r = Unparsable \<Longrightarrow>
   r \<notin> set (selectedRecords lib now trange metric rs)"
  using selectedRecords_valid [of r lib now trange metric rs] by auto

text \<open>
  Claim C5. For every collection and metric, \<^verbatim>\<open>getChartData\<close> returns a series (it does
  not throw) that groups the windowed, time-sorted matching measurements \<open>sel\<close> (the
  measurements of the metric logged at or after \<^verbatim>\<open>subDays(now, daysToShow)\<close>, sorted by
  time) by their day label \<^verbatim>\<open>MM/dd\<close>: the labels are in lexicographic order, there is
  exactly one point per day label that occurs, and the value of a point is the arithmetic
  mean of the values of that day's measurements, computed as the code does: the values
  added from 0 in time order, the sum divided by their number. When no measurement is
  selected, the series is the single "no data" point.
\<close>

theorem chart_points_per_day:
  fixes lib now trange metric rs
  defines "sel \<equiv> sort_key getTime
             (filter (\<lambda>r. metric_type r = metric_name metric
                        \<and> (\<exists>t. logged_at r = ISO t \<and> subDays lib now (daysToShow trange) \<le> t)) rs)"
  defines "day \<equiv> \<lambda>r. formatValid lib (getTime r) ''MM/dd''"
  shows "\<exists>cd. getChartData lib now trange metric rs = Inr cd
      \<and> sorted (labels cd) \<and> distinct (labels cd)
      \<and> length (datasets_data cd) = length (labels cd)
      \<and> (sel \<noteq> [] \<longrightarrow>
           set (labels cd) = day ` set sel
           \<and> datasets_data cd =
               map (\<lambda>d. divide_by (foldl (\<lambda>a b. a + b) 0 (map value1 (filter (\<lambda>r. day r = d) sel)))
                                   (length (filter (\<lambda>r. day r = d) sel)))
                   (labels cd))
      \<and> (sel = [] \<longrightarrow> cd = \<lparr> labels = [noDataLabel], datasets_data = [0] \<rparr>)"
proof -
  have sel: "selectedRecords lib now trange metric rs = sel"
    unfolding sel_def selectedRecords_def
    by (rule arg_cong [where f = "sort_key getTime"], rule filter_cong) (simp_all add: inWindow_iff)
  show ?thesis
  proof (cases "sel = []")
    case True
    then show ?thesis
      by (simp add: getChartData_result sel)
  next
    case False
    then show ?thesis
      by (simp add: getChartData_result sel labels_of_selected labels_distinct day_def
          del: set_sort distinct_sort)
  qed
qed

text \<open>Scenario 4 of the specification, in the zone UTC: two measurements of 10 and 20 on
  2024-03-14 (given latest first) yield the single point 03/14 with value 15.\<close>

theorem chart_points_per_day_witness:
  "sort_key getTime
     (filter (\<lambda>r. metric_type r = metric_name weight
                \<and> (\<exists>t. logged_at r = ISO t \<and> subDays utc 1710504000000 (daysToShow week) \<le> t))
       [\<lparr> metric_type = ''weight'', value1_json = 20, logged_at = ISO 1710446400000 \<rparr>,
        \<lparr> metric_type = ''weight'', value1_json = 10, logged_at = ISO 1710403200000 \<rparr>])
     = [\<lparr> metric_type = ''weight'', value1_json = 10, logged_at = ISO 1710403200000 \<rparr>,
        \<lparr> metric_type = ''weight'', value1_json = 20, logged_at = ISO 1710446400000 \<rparr>]
   \<and> getChartData utc 1710504000000 week weight
       [\<lparr> metric_type = ''weight'', value1_json = 20, logged_at = ISO 1710446400000 \<rparr>,
        \<lparr> metric_type = ''weight'', value1_json = 10, logged_at = ISO 1710403200000 \<rparr>]
     = Inr \<lparr> labels = [''03/14''], datasets_data = [Fin 15] \<rparr>"
proof -
  have s: "sort_key getTime
     (filter (\<lambda>r. metric_type r = metric_name weight
                \<and> (\<exists>t. logged_at r = ISO t \<and> subDays utc 1710504000000 (daysToShow week) \<le> t))
       [\<lparr> metric_type = ''weight'', value1_json = 20, logged_at = ISO 1710446400000 \<rparr>,
        \<lparr> metric_type = ''weight'', value1_json = 10, logged_at = ISO 1710403200000 \<rparr>])
     = [\<lparr> metric_type = ''weight'', value1_json = 10, logged_at = ISO 1710403200000 \<rparr>,
        \<lparr> metric_type = ''weight'', value1_json = 20, logged_at = ISO 1710446400000 \<rparr>]"
    by (simp add: utc_def utc_subDays_def msPerDay_def getTime_def)
  have e: "getChartData utc 1710504000000 week weight
       [\<lparr> metric_type = ''weight'', value1_json = 20, logged_at = ISO 1710446400000 \<rparr>,
        \<lparr> metric_type = ''weight'', value1_json = 10, logged_at = ISO 1710403200000 \<rparr>]
     = Inr \<lparr> labels = [''03/14''], datasets_data = [Fin 15] \<rparr>"
    by code_simp
  show ?thesis
    using s e chart_points_per_day [of utc 1710504000000 week weight
       "[\<lparr> metric_type = ''weight'', value1_json = 20, logged_at = ISO 1710446400000 \<rparr>,
         \<lparr> metric_type = ''weight'', value1_json = 10, logged_at = ISO 1710403200000 \<rparr>]"]
    by (simp only: simp_thms)
qed

text \<open>
  Claim C6. With the range \<open>week\<close> (\<^verbatim>\<open>daysToShow = 7\<close>) and the reference instant
  \<open>now\<close>, let \<open>W\<close> hold of the measurements of the metric whose \<^verbatim>\<open>logged_at\<close> is an
  instant at or after \<^verbatim>\<open>subDays(now, 7)\<close> (the bound is inclusive). Every measurement in
  \<open>W\<close> is included in the series: the series has a point for its day, whose value is
  the mean over the measurements in \<open>W\<close> of that day. No other measurement is included:
  the days of the series are those of the measurements in \<open>W\<close>, the series is the "no
  data" point when \<open>W\<close> is empty, and the series is the one built from the collection
  without the measurements logged earlier than the bound or without a readable time.
\<close>

theorem week_window_inclusive:
  fixes lib now metric rs
  defines "W \<equiv> \<lambda>r. metric_type r = metric_name metric
                    \<and> (\<exists>t. logged_at r = ISO t \<and> subDays lib now 7 \<le> t)"
  defines "day \<equiv> \<lambda>r. formatValid lib (getTime r) ''MM/dd''"
  shows "\<exists>cd. getChartData lib now week metric rs = Inr cd
      \<and> (\<forall>r \<in> set rs. W r \<longrightarrow>
            (\<exists>i < length (labels cd).
               labels cd ! i = day r
               \<and> datasets_data cd ! i =
                   divide_by
                     (foldl (\<lambda>a b. a + b) 0
                        (map value1 (filter (\<lambda>r'. day r' = day r) (sort_key getTime (filter W rs)))))
                     (length (filter (\<lambda>r'. day r' = day r) (sort_key getTime (filter W rs))))))
      \<and> ((\<exists>r \<in> set rs. W r) \<longrightarrow> set (labels cd) = day ` {r \<in> set rs. W r})
      \<and> (\<not> (\<exists>r \<in> set rs. W r) \<longrightarrow> cd = \<lparr> labels = [noDataLabel], datasets_data = [0] \<rparr>)
      \<and> getChartData lib now week metric rs =
          getChartData lib now week metric
            (filter (\<lambda>r. \<exists>t. logged_at r = ISO t \<and> subDays lib now 7 \<le> t) rs)"
proof -
  define sel where "sel = sort_key getTime (filter W rs)"
  have sel: "selectedRecords lib now week metric rs = sel"
    unfolding sel_def selectedRecords_def W_def
    by (rule arg_cong [where f = "sort_key getTime"], rule filter_cong) (simp_all add: inWindow_iff)
  have set_sel: "set sel = {r \<in> set rs. W r}"
    by (simp add: sel_def)
  define dates where "dates = sort (map fst (fold (\<lambda>r. addToGroup (day r) (value1 r)) sel []))"
  define val where "val = (\<lambda>d. divide_by (foldl (\<lambda>a b. a + b) 0 (map value1 (filter (\<lambda>r. day r = d) sel)))
                                         (length (filter (\<lambda>r. day r = d) sel)))"
  have res: "getChartData lib now week metric rs =
     Inr (if sel = [] then \<lparr> labels = [noDataLabel], datasets_data = [0] \<rparr>
          else \<lparr> labels = dates, datasets_data = map val dates \<rparr>)"
    unfolding dates_def val_def day_def
    using getChartData_result [of lib now week metric rs]
    by (simp only: sel)
  have dates: "set dates = day ` set sel"
    unfolding dates_def by (rule labels_of_selected)
  have same: "getChartData lib now week metric rs =
          getChartData lib now week metric
            (filter (\<lambda>r. \<exists>t. logged_at r = ISO t \<and> subDays lib now 7 \<le> t) rs)"
  proof -
    have "selectedRecords lib now week metric
            (filter (\<lambda>r. \<exists>t. logged_at r = ISO t \<and> subDays lib now 7 \<le> t) rs)
          = selectedRecords lib now week metric rs"
      by (rule selectedRecords_filter) (auto simp: inWindow_iff)
    then show ?thesis
      by (simp add: getChartData_def)
  qed
  show ?thesis
  proof (cases "sel = []")
    case True
    then have none: "\<not> (\<exists>r \<in> set rs. W r)"
      using set_sel by auto
    have "getChartData lib now week metric rs = Inr \<lparr> labels = [noDataLabel], datasets_data = [0] \<rparr>"
      using True res by simp
    with none same show ?thesis
      by auto
  next
    case False
    then have some: "\<exists>r \<in> set rs. W r"
      using set_sel by (cases sel) auto
    have cd: "getChartData lib now week metric rs = Inr \<lparr> labels = dates, datasets_data = map val dates \<rparr>"
      using False res by simp
    have point: "\<exists>i < length dates. dates ! i = day r \<and> map val dates ! i = val (day r)"
      if "r \<in> set rs" "W r" for r
    proof -
      from that have "day r \<in> set dates"
        using dates set_sel by auto
      then obtain i where "i < length dates" "dates ! i = day r"
        by (auto simp: in_set_conv_nth)
      then show ?thesis
        by auto
    qed
    have "set dates = day ` {r \<in> set rs. W r}"
      using dates set_sel by simp
    with cd some same point show ?thesis
      by (auto simp: val_def sel_def)
  qed
qed

text \<open>In the zone UTC with \<open>now\<close> = 2024-03-15 12:00: a measurement at 2024-03-08
  12:00:00.000 and one on 03-14 are in the series, each with its own point, and one at
  2024-03-08 11:59:59.999 is not.\<close>

theorem week_window_inclusive_witness:
  "subDays utc 1710504000000 7 = 1709899200000
   \<and> getChartData utc 1710504000000 week weight
       [\<lparr> metric_type = ''weight'', value1_json = 70, logged_at = ISO 1709899200000 \<rparr>,
        \<lparr> metric_type = ''weight'', value1_json = 90, logged_at = ISO 1709899199999 \<rparr>,
        \<lparr> metric_type = ''weight'', value1_json = 80, logged_at = ISO 1710403200000 \<rparr>]
     = Inr \<lparr> labels = [''03/08'', ''03/14''], datasets_data = [Fin 70, Fin 80] \<rparr>"
proof -
  have b: "subDays utc 1710504000000 7 = 1709899200000"
    by (simp add: utc_def utc_subDays_def msPerDay_def)
  have e: "getChartData utc 1710504000000 week weight
       [\<lparr> metric_type = ''weight'', value1_json = 70, logged_at = ISO 1709899200000 \<rparr>,
        \<lparr> metric_type = ''weight'', value1_json = 90, logged_at = ISO 1709899199999 \<rparr>,
        \<lparr> metric_type = ''weight'', value1_json = 80, logged_at = ISO 1710403200000 \<rparr>]
     = Inr \<lparr> labels = [''03/08'', ''03/14''], datasets_data = [Fin 70, Fin 80] \<rparr>"
    by code_simp
  show ?thesis
    using b e week_window_inclusive [of utc 1710504000000 weight
       "[\<lparr> metric_type = ''weight'', value1_json = 70, logged_at = ISO 1709899200000 \<rparr>,
         \<lparr> metric_type = ''weight'', value1_json = 90, logged_at = ISO 1709899199999 \<rparr>,
         \<lparr> metric_type = ''weight'', value1_json = 80, logged_at = ISO 1710403200000 \<rparr>]"]
    by (simp only: simp_thms)
qed

section \<open>The week comparison\<close>

lemma foldl_value1:
  "foldl (\<lambda>sum r. sum + value1 r) a rs = foldl (\<lambda>a b. a + b) a (map value1 rs)"
  by (induction rs arbitrary: a) simp_all

lemma weekAvg_mean:
  "weekAvg rs =
     (if rs = [] then 0 else divide_by (foldl (\<lambda>a b. a + b) 0 (map value1 rs)) (length rs))"
  by (simp add: weekAvg_def foldl_value1)

lemma inWeek_iff:
  "inWeek start end metric r \<longleftrightarrow>
     metric_type r = metric_name metric \<and> (\<exists>t. logged_at r = ISO t \<and> start \<le> t \<and> t \<le> end)"
  by (cases "logged_at r") (auto simp: inWeek_def date_ge_def date_le_def)

lemma inWeek_excludes:
  "logged_at r = Missing \<or> logged_at r = Unparsable \<Longrightarrow> \<not> inWeek start end metric r"
  by (auto simp: inWeek_iff)

text \<open>
  Claim C7. \<^verbatim>\<open>getWeekComparison\<close> returns as change the mean of the current week's
  values minus the mean of last week's values, rounded to one decimal place, where the
  mean of a week without matching measurements is 0; with no matching measurement in
  either week the change is 0. The current week runs from \<^verbatim>\<open>startOfWeek(today)\<close> to
  \<^verbatim>\<open>endOfWeek(today)\<close>, last week is the week of \<^verbatim>\<open>subDays(today, 7)\<close>; sums, quotients
  and the difference are those of doubles.
\<close>

theorem week_comparison_change:
  fixes lib today metric rs
  defines "cur \<equiv> filter (\<lambda>r. metric_type r = metric_name metric
                     \<and> (\<exists>t. logged_at r = ISO t \<and> startOfWeek lib today \<le> t
                              \<and> t \<le> endOfWeek lib today)) rs"
  defines "lst \<equiv> filter (\<lambda>r. metric_type r = metric_name metric
                     \<and> (\<exists>t. logged_at r = ISO t \<and> startOfWeek lib (subDays lib today 7) \<le> t
                              \<and> t \<le> endOfWeek lib (subDays lib today 7))) rs"
  defines "mean \<equiv> \<lambda>xs. if xs = [] then 0
                        else divide_by (foldl (\<lambda>a b. a + b) 0 (map value1 xs)) (length xs)"
  shows "weekChange (getWeekComparison lib today metric rs) = toFixed1 (mean cur - mean lst)
       \<and> (cur = [] \<and> lst = [] \<longrightarrow> weekChange (getWeekComparison lib today metric rs) = 0)"
proof -
  have c: "filter (inWeek (startOfWeek lib today) (endOfWeek lib today) metric) rs = cur"
    unfolding cur_def by (rule filter_cong) (simp_all add: inWeek_iff)
  have l: "filter (inWeek (startOfWeek lib (subDays lib today 7))
                          (endOfWeek lib (subDays lib today 7)) metric) rs = lst"
    unfolding lst_def by (rule filter_cong) (simp_all add: inWeek_iff)
  have w: "weekChange (getWeekComparison lib today metric rs) = toFixed1 (mean cur - mean lst)"
    by (simp add: getWeekComparison_def Let_def c l weekAvg_mean mean_def)
  show ?thesis
    by (simp add: w mean_def zero_minus_zero toFixed1_0)
qed

text \<open>In the zone UTC on Friday 2024-03-15: the current week (from Sunday 03-10) holds 1
  and 2, last week holds 1.25, and the change is 0.25 rounded, the double 0.3; records
  with an unreadable timestamp or from before last week do not count. For a collection
  without steps the change is 0.\<close>

theorem week_comparison_change_witness:
  "weekChange (getWeekComparison utc 1710504000000 steps
       [\<lparr> metric_type = ''steps'', value1_json = 1, logged_at = ISO 1710403200000 \<rparr>,
        \<lparr> metric_type = ''steps'', value1_json = 2, logged_at = ISO 1710028800000 \<rparr>,
        \<lparr> metric_type = ''steps'', value1_json = 5 / 4, logged_at = ISO 1710028799999 \<rparr>,
        \<lparr> metric_type = ''steps'', value1_json = 100, logged_at = Unparsable \<rparr>,
        \<lparr> metric_type = ''steps'', value1_json = 100, logged_at = ISO 1709423999999 \<rparr>]) = fl (3 / 10)
   \<and> filter (\<lambda>r. metric_type r = metric_name steps
                \<and> (\<exists>t. logged_at r = ISO t \<and> startOfWeek utc 1710504000000 \<le> t
                         \<and> t \<le> endOfWeek utc 1710504000000))
       [\<lparr> metric_type = ''weight'', value1_json = 70, logged_at = ISO 1710403200000 \<rparr>] = []
   \<and> filter (\<lambda>r. metric_type r = metric_name steps
                \<and> (\<exists>t. logged_at r = ISO t \<and> startOfWeek utc (subDays utc 1710504000000 7) \<le> t
                         \<and> t \<le> endOfWeek utc (subDays utc 1710504000000 7)))
       [\<lparr> metric_type = ''weight'', value1_json = 70, logged_at = ISO 1710403200000 \<rparr>] = []
   \<and> weekChange (getWeekComparison utc 1710504000000 steps
       [\<lparr> metric_type = ''weight'', value1_json = 70, logged_at = ISO 1710403200000 \<rparr>]) = 0"
proof -
  have a: "weekChange (getWeekComparison utc 1710504000000 steps
       [\<lparr> metric_type = ''steps'', value1_json = 1, logged_at = ISO 1710403200000 \<rparr>,
        \<lparr> metric_type = ''steps'', value1_json = 2, logged_at = ISO 1710028800000 \<rparr>,
        \<lparr> metric_type = ''steps'', value1_json = 5 / 4, logged_at = ISO 1710028799999 \<rparr>,
        \<lparr> metric_type = ''steps'', value1_json = 100, logged_at = Unparsable \<rparr>,
        \<lparr> metric_type = ''steps'', value1_json = 100, logged_at = ISO 1709423999999 \<rparr>]) = fl (3 / 10)"
    by code_simp
  have b: "filter (\<lambda>r. metric_type r = metric_name steps
                \<and> (\<exists>t. logged_at r = ISO t \<and> startOfWeek utc 1710504000000 \<le> t
                         \<and> t \<le> endOfWeek utc 1710504000000))
       [\<lparr> metric_type = ''weight'', value1_json = 70, logged_at = ISO 1710403200000 \<rparr>] = []"
    by simp
  have c: "filter (\<lambda>r. metric_type r = metric_name steps
                \<and> (\<exists>t. logged_at r = ISO t \<and> startOfWeek utc (subDays utc 1710504000000 7) \<le> t
                         \<and> t \<le> endOfWeek utc (subDays utc 1710504000000 7)))
       [\<lparr> metric_type = ''weight'', value1_json = 70, logged_at = ISO 1710403200000 \<rparr>] = []"
    by simp
  have d: "weekChange (getWeekComparison utc 1710504000000 steps
       [\<lparr> metric_type = ''weight'', value1_json = 70, logged_at = ISO 1710403200000 \<rparr>]) = 0"
    by code_simp
  show ?thesis
    using a b c d
      week_comparison_change [of utc 1710504000000 steps
        "[\<lparr> metric_type = ''weight'', value1_json = 70, logged_at = ISO 1710403200000 \<rparr>]"]
    by (simp only: simp_thms)
qed

section \<open>The calendar marks\<close>

text \<open>\<^verbatim>\<open>getMarkedDates\<close> throws exactly when some record has a \<^verbatim>\<open>logged_at\<close> that is
  present and that \<^verbatim>\<open>parseISO\<close> cannot read: its guard skips only a missing
  \<^verbatim>\<open>logged_at\<close>, and \<^verbatim>\<open>format\<close> rejects the Invalid Date.\<close>

lemma markRecords_raises_iff:
  "markRecords lib rs mk = Inl e \<longleftrightarrow> e = RangeError \<and> (\<exists>r \<in> set rs. logged_at r = Unparsable)"
proof (induction rs arbitrary: mk)
  case Nil
  show ?case by simp
next
  case (Cons r rs)
  show ?case
    by (cases "logged_at r")
      (auto simp: Cons.IH format_def split: option.splits)
qed

lemma getMarkedDates_raises_iff:
  "getMarkedDates lib selectedDate rs = Inl e \<longleftrightarrow>
     e = RangeError \<and> (\<exists>r \<in> set rs. logged_at r = Unparsable)"
proof -
  have "getMarkedDates lib selectedDate rs = Inl e \<longleftrightarrow> markRecords lib rs Map.empty = Inl e"
    by (simp add: getMarkedDates_def split: sum.splits)
  then show ?thesis
    by (simp add: markRecords_raises_iff)
qed

text \<open>\<^verbatim>\<open>calculateStats\<close> does not read \<^verbatim>\<open>logged_at\<close>.\<close>

lemma metricRecords_ignores_logged_at:
  "metricRecords m (map (\<lambda>r. r\<lparr> logged_at := f r \<rparr>) data)
     = map (\<lambda>r. r\<lparr> logged_at := f r \<rparr>) (metricRecords m data)"
  by (induction data) (simp_all add: metricRecords_def)

text \<open>
  Claim C8. A measurement whose timestamp is missing or unreadable is to be left out of
  the date buckets of every date-dependent operation, none of which may raise, and is
  still counted by the summary. On a collection holding one weight measurement with an
  unreadable timestamp, \<^verbatim>\<open>getChartData\<close> and \<^verbatim>\<open>getWeekComparison\<close> return their "no
  data" results and the summary counts the measurement, but \<^verbatim>\<open>getMarkedDates\<close> raises
  a \<^verbatim>\<open>RangeError\<close>.
\<close>

theorem getMarkedDates_raises_on_unparsable:
  "getMarkedDates utc ''2024-03-15''
       [\<lparr> metric_type = ''weight'', value1_json = 70, logged_at = Unparsable \<rparr>] = Inl RangeError
   \<and> getChartData utc 1710504000000 week weight
       [\<lparr> metric_type = ''weight'', value1_json = 70, logged_at = Unparsable \<rparr>]
       = Inr \<lparr> labels = [noDataLabel], datasets_data = [0] \<rparr>
   \<and> getWeekComparison utc 1710504000000 weight
       [\<lparr> metric_type = ''weight'', value1_json = 70, logged_at = Unparsable \<rparr>]
       = \<lparr> currentWeekAvg = 0, lastWeekAvg = 0, weekChange = 0 \<rparr>
   \<and> stats (loadData [\<lparr> metric_type = ''weight'', value1_json = 70, logged_at = Unparsable \<rparr>] mount) weight
       = \<lparr> current = Some (Fin 70), avg = Some (Fin 70), min_stat = Some (Fin 70),
           max_stat = Some (Fin 70), trend = none, change = 0 \<rparr>"
proof -
  have a: "getMarkedDates utc ''2024-03-15''
       [\<lparr> metric_type = ''weight'', value1_json = 70, logged_at = Unparsable \<rparr>] = Inl RangeError"
    by (simp add: getMarkedDates_def format_def)
  have b: "getChartData utc 1710504000000 week weight
       [\<lparr> metric_type = ''weight'', value1_json = 70, logged_at = Unparsable \<rparr>]
       = Inr \<lparr> labels = [noDataLabel], datasets_data = [0] \<rparr>"
    by code_simp
  have c: "getWeekComparison utc 1710504000000 weight
       [\<lparr> metric_type = ''weight'', value1_json = 70, logged_at = Unparsable \<rparr>]
       = \<lparr> currentWeekAvg = 0, lastWeekAvg = 0, weekChange = 0 \<rparr>"
    by code_simp
  have d: "stats (loadData [\<lparr> metric_type = ''weight'', value1_json = 70, logged_at = Unparsable \<rparr>] mount) weight
       = \<lparr> current = Some (Fin 70), avg = Some (Fin 70), min_stat = Some (Fin 70),
           max_stat = Some (Fin 70), trend = none, change = 0 \<rparr>"
    by code_simp
  show ?thesis
    using a b c d by (simp only: simp_thms)
qed

section \<open>Doubles and decimals\<close>

text \<open>
  The results are those of double arithmetic, which differ from exact decimal arithmetic
  on some inputs: water of 0.1 then 1.1 has the difference 1.0 and is stable; weights of
  63.9 then 64.4 differ by 0.5000000000000071 and the trend is up; 0.1, 0.2 and 0.3 on one
  day have the mean 0.20000000000000004, next to the double 0.2; 50 and 50.1 in one week
  average to 50.04999999999999716 and the change is 50.0.
\<close>

lemma double_arithmetic_examples:
  "change (stats (loadData
       [\<lparr> metric_type = ''water'', value1_json = 1 / 10, logged_at = Missing \<rparr>,
        \<lparr> metric_type = ''water'', value1_json = 11 / 10, logged_at = Missing \<rparr>] mount) water) = Fin 1"
  "trend (stats (loadData
       [\<lparr> metric_type = ''water'', value1_json = 1 / 10, logged_at = Missing \<rparr>,
        \<lparr> metric_type = ''water'', value1_json = 11 / 10, logged_at = Missing \<rparr>] mount) water) = stable"
  "trend (stats (loadData
       [\<lparr> metric_type = ''weight'', value1_json = 639 / 10, logged_at = Missing \<rparr>,
        \<lparr> metric_type = ''weight'', value1_json = 644 / 10, logged_at = Missing \<rparr>] mount) weight) = up"
  "getChartData utc 1710504000000 week weight
       [\<lparr> metric_type = ''weight'', value1_json = 1 / 10, logged_at = ISO 1710403200000 \<rparr>,
        \<lparr> metric_type = ''weight'', value1_json = 2 / 10, logged_at = ISO 1710403200001 \<rparr>,
        \<lparr> metric_type = ''weight'', value1_json = 3 / 10, logged_at = ISO 1710403200002 \<rparr>]
     = Inr \<lparr> labels = [''03/14''],
             datasets_data = [Fin (7205759403792795 / 36028797018963968)] \<rparr>"
  "fl (2 / 10) = Fin (7205759403792794 / 36028797018963968)"
  "weekChange (getWeekComparison utc 1710504000000 steps
       [\<lparr> metric_type = ''steps'', value1_json = 50, logged_at = ISO 1710403200000 \<rparr>,
        \<lparr> metric_type = ''steps'', value1_json = 501 / 10, logged_at = ISO 1710403200001 \<rparr>]) = Fin 50"
  by code_simp+

end
